theory Spec2Isabelle
  imports Complex_Main
begin

section \<open>Numbers\<close>

text \<open>
  The engine computes with JavaScript numbers. They are modelled as real numbers:
  rounding and overflow of IEEE doubles are not part of the model, so an equation
  proved below holds in the program up to rounding. A JavaScript division by zero does
  not raise; it yields \<open>Infinity\<close> or \<open>NaN\<close>, which no real number stands for. Every
  function that divides by a quantity that can be zero therefore returns an
  \<open>option\<close>: \<open>None\<close> says that the program's value there is \<open>Infinity\<close> or \<open>NaN\<close> and
  the model does not follow it further. Timestamps (\<open>Date.getTime()\<close>) are integers,
  milliseconds since the epoch.
\<close>

section \<open>constants.ts\<close>

definition SECONDS_PER_SLOT :: real where "SECONDS_PER_SLOT = 12"
definition SLOTS_PER_EPOCH :: real where "SLOTS_PER_EPOCH = 32"
definition SECONDS_PER_EPOCH :: real where
  "SECONDS_PER_EPOCH = SECONDS_PER_SLOT * SLOTS_PER_EPOCH"
definition EPOCHS_PER_DAY :: real where
  "EPOCHS_PER_DAY = (24 * 60 * 60) / SECONDS_PER_EPOCH"
definition EPOCHS_PER_YEAR :: real where
  "EPOCHS_PER_YEAR = EPOCHS_PER_DAY * 365.25"
definition MIN_PER_EPOCH_CHURN_LIMIT :: real where "MIN_PER_EPOCH_CHURN_LIMIT = 4"
definition CHURN_LIMIT_QUOTIENT :: real where "CHURN_LIMIT_QUOTIENT = 65536"
definition BASE_REWARD_FACTOR :: real where "BASE_REWARD_FACTOR = 64"
definition BASE_REWARDS_PER_EPOCH :: real where "BASE_REWARDS_PER_EPOCH = 4"
definition TOTAL_ETH_SUPPLY :: real where "TOTAL_ETH_SUPPLY = 120000000"

section \<open>protocol.ts\<close>

text \<open>
  \<open>getBaseRewardPerEpoch\<close> divides by \<open>Math.floor(Math.sqrt(totalEffectiveBalanceGwei))\<close>.
  The quotient is \<open>NaN\<close> for a negative total (the square root is \<open>NaN\<close>) and \<open>Infinity\<close>
  or \<open>NaN\<close> when the floor is zero, that is for a total below one Gwei.
\<close>

definition getBaseRewardPerEpoch :: "real \<Rightarrow> real \<Rightarrow> real option" where
  "getBaseRewardPerEpoch effectiveBalance totalEffectiveBalance =
     (let effectiveBalanceGwei = effectiveBalance * 1000000000;
          totalEffectiveBalanceGwei = totalEffectiveBalance * 1000000000;
          root = \<lfloor>sqrt totalEffectiveBalanceGwei\<rfloor>
      in if totalEffectiveBalanceGwei < 0 \<or> root = 0 then None
         else Some (((effectiveBalanceGwei * BASE_REWARD_FACTOR) / real_of_int root)
                    / 1000000000))"

definition getTheoreticalAPR :: "real \<Rightarrow> real option" where
  "getTheoreticalAPR totalStakedETH =
     (if totalStakedETH \<le> 0 then Some 0
      else case getBaseRewardPerEpoch 32 totalStakedETH of
             None \<Rightarrow> None
           | Some baseRewardPerEpoch \<Rightarrow>
               (let rewardsPerEpoch = baseRewardPerEpoch * BASE_REWARDS_PER_EPOCH;
                    annualRewards = rewardsPerEpoch * EPOCHS_PER_YEAR
                in Some ((annualRewards / 32) * 100)))"

definition getChurnLimit :: "real \<Rightarrow> real" where
  "getChurnLimit activeValidatorCount =
     max MIN_PER_EPOCH_CHURN_LIMIT
         (real_of_int \<lfloor>activeValidatorCount / CHURN_LIMIT_QUOTIENT\<rfloor>)"

definition getStakeRatio :: "real \<Rightarrow> real" where
  "getStakeRatio totalStakedETH = (totalStakedETH / TOTAL_ETH_SUPPLY) * 100"

text \<open>The division by \<open>targetAPR\<close> is behind the guard \<open>targetAPR <= 0\<close>.\<close>

definition getEquilibriumStakeForAPR :: "real \<Rightarrow> real" where
  "getEquilibriumStakeForAPR targetAPR =
     (if targetAPR \<le> 0 then TOTAL_ETH_SUPPLY
      else let numerator = BASE_REWARD_FACTOR * BASE_REWARDS_PER_EPOCH * EPOCHS_PER_YEAR * 100;
               sqrtTotalStakeGwei = numerator / targetAPR;
               totalStakeGwei = sqrtTotalStakeGwei * sqrtTotalStakeGwei
           in totalStakeGwei / 1000000000)"

section \<open>simple-statistics\<close>

text \<open>
  The statistics library is not part of the repository. Its functions are modelled as
  the library documents them: \<open>mean\<close> is the arithmetic mean, \<open>standardDeviation\<close> the
  population standard deviation (zero for a single value), \<open>linearRegression\<close> the
  least-squares line through a list of points, \<open>sampleCorrelation\<close> the sample covariance
  divided by both sample standard deviations. \<open>mean\<close> and \<open>standardDeviation\<close> throw on
  an empty list; every caller below passes a non-empty one. \<open>sampleCorrelation\<close> is
  \<open>NaN\<close> when one of the deviations is zero.
\<close>

definition mean :: "real list \<Rightarrow> real" where
  "mean xs = sum_list xs / real (length xs)"

definition sumNthPowerDeviations2 :: "real list \<Rightarrow> real" where
  "sumNthPowerDeviations2 xs = sum_list (map (\<lambda>x. (x - mean xs)\<^sup>2) xs)"

definition standardDeviation :: "real list \<Rightarrow> real" where
  "standardDeviation xs =
     (if length xs = 1 then 0 else sqrt (sumNthPowerDeviations2 xs / real (length xs)))"

definition sampleStandardDeviation :: "real list \<Rightarrow> real" where
  "sampleStandardDeviation xs = sqrt (sumNthPowerDeviations2 xs / (real (length xs) - 1))"

definition sampleCovariance :: "real list \<Rightarrow> real list \<Rightarrow> real" where
  "sampleCovariance xs ys =
     sum_list (map (\<lambda>(x, y). (x - mean xs) * (y - mean ys)) (zip xs ys))
       / (real (length xs) - 1)"

definition sampleCorrelation :: "real list \<Rightarrow> real list \<Rightarrow> real option" where
  "sampleCorrelation xs ys =
     (let cov = sampleCovariance xs ys;
          xstd = sampleStandardDeviation xs;
          ystd = sampleStandardDeviation ys
      in if xstd = 0 \<or> ystd = 0 then None else Some (cov / xstd / ystd))"

text \<open>The regression line \<open>(m, b)\<close>; the caller passes at least two points with distinct abscissae.\<close>

definition linearRegression :: "(real \<times> real) list \<Rightarrow> real \<times> real" where
  "linearRegression data =
     (let n = real (length data) in
      if length data = 1 then (0, snd (hd data))
      else let sumX = sum_list (map fst data);
               sumY = sum_list (map snd data);
               sumXX = sum_list (map (\<lambda>(x, y). x * x) data);
               sumXY = sum_list (map (\<lambda>(x, y). x * y) data);
               m = (n * sumXY - sumX * sumY) / (n * sumXX - sumX * sumX);
               b = sumY / n - (m * sumX) / n
           in (m, b))"

section \<open>execution.ts\<close>

datatype FeeRegime = calm | elevated | hot

record ExecutionDataPoint =
  timestamp :: int
  priorityFeesETH :: real
  mevRewardsETH :: real
  avgGasPrice :: real
  blockCount :: real

record TransitionProbability =
  toCalm :: real
  toElevated :: real
  toHot :: real

record RegimeDetection =
  currentRegime :: FeeRegime
  regimeConfidence :: real
  daysInRegime :: nat
  transitionProbability :: TransitionProbability

record Confidence =
  lower :: real
  upper :: real

record ExecutionComponents =
  priorityFees :: real
  mevRewards :: real

record ExecutionYieldForecast =
  dailyYieldETH :: real
  annualizedAPR :: real
  regime :: FeeRegime
  confidence :: Confidence
  components :: ExecutionComponents

definition REGIME_THRESHOLDS_calm_max :: real where "REGIME_THRESHOLDS_calm_max = 0.001"
definition REGIME_THRESHOLDS_elevated_min :: real where "REGIME_THRESHOLDS_elevated_min = 0.001"
definition REGIME_THRESHOLDS_elevated_max :: real where "REGIME_THRESHOLDS_elevated_max = 0.003"
definition REGIME_THRESHOLDS_hot_min :: real where "REGIME_THRESHOLDS_hot_min = 0.003"

fun TRANSITION_MATRIX :: "FeeRegime \<Rightarrow> TransitionProbability" where
  "TRANSITION_MATRIX calm = \<lparr>toCalm = 0.85, toElevated = 0.12, toHot = 0.03\<rparr>"
| "TRANSITION_MATRIX elevated = \<lparr>toCalm = 0.25, toElevated = 0.55, toHot = 0.20\<rparr>"
| "TRANSITION_MATRIX hot = \<lparr>toCalm = 0.10, toElevated = 0.40, toHot = 0.50\<rparr>"

fun MEAN_REVERSION_target :: "FeeRegime \<Rightarrow> real" where
  "MEAN_REVERSION_target calm = 0.0005"
| "MEAN_REVERSION_target elevated = 0.002"
| "MEAN_REVERSION_target hot = 0.004"

fun MEAN_REVERSION_halfLife :: "FeeRegime \<Rightarrow> real" where
  "MEAN_REVERSION_halfLife calm = 7"
| "MEAN_REVERSION_halfLife elevated = 5"
| "MEAN_REVERSION_halfLife hot = 3"

definition classifyYield :: "real \<Rightarrow> FeeRegime" where
  "classifyYield yieldPerValidator =
     (if yieldPerValidator < REGIME_THRESHOLDS_calm_max then calm
      else if yieldPerValidator < REGIME_THRESHOLDS_elevated_max then elevated
      else hot)"

text \<open>
  \<open>[...history].sort((a, b) => b.timestamp.getTime() - a.timestamp.getTime())\<close>: a
  stable sort of a copy, latest first.
\<close>

definition sortDescending :: "ExecutionDataPoint list \<Rightarrow> ExecutionDataPoint list" where
  "sortDescending history = sort_key (\<lambda>p. - ExecutionDataPoint.timestamp p) history"

text \<open>
  \<open>detectRegime\<close> divides every yield by \<open>activeValidators\<close>; with a non-empty history
  and no validator the yields are \<open>Infinity\<close> or \<open>NaN\<close>. The loop that counts the days
  in the current regime stops at the first point of another regime: it is the length
  of the longest prefix of matching points.
\<close>

definition detectRegime :: "ExecutionDataPoint list \<Rightarrow> real \<Rightarrow> RegimeDetection option" where
  "detectRegime history activeValidators =
     (if length history = 0 then
        Some \<lparr>currentRegime = calm, regimeConfidence = 0.5, daysInRegime = 0,
              transitionProbability = TRANSITION_MATRIX calm\<rparr>
      else if activeValidators = 0 then None
      else
        let sorted = sortDescending history;
            recentDays = take 7 sorted;
            dailyYields = map (\<lambda>d. (let totalYield = priorityFeesETH d + mevRewardsETH d
                                      in totalYield / activeValidators)) recentDays;
            avgYield = mean dailyYields;
            yieldStd = (if length dailyYields > 1 then standardDeviation dailyYields
                        else avgYield * 0.3);
            (currentRegime, confidence) =
              (if avgYield < REGIME_THRESHOLDS_calm_max then
                 (calm, 1 - avgYield / REGIME_THRESHOLDS_calm_max)
               else if avgYield < REGIME_THRESHOLDS_elevated_max then
                 (let range = REGIME_THRESHOLDS_elevated_max - REGIME_THRESHOLDS_elevated_min;
                      position = (avgYield - REGIME_THRESHOLDS_elevated_min) / range
                  in (elevated, 1 - \<bar>position - 0.5\<bar> * 2))
               else
                 (hot, min 1 ((avgYield - REGIME_THRESHOLDS_hot_min) / 0.002)));
            daysInRegime = length (takeWhile
              (\<lambda>point. classifyYield ((priorityFeesETH point + mevRewardsETH point)
                                         / activeValidators) = currentRegime) sorted)
        in Some \<lparr>currentRegime = currentRegime,
                  regimeConfidence = max 0.3 (min 1 confidence),
                  daysInRegime = daysInRegime,
                  transitionProbability = TRANSITION_MATRIX currentRegime\<rparr>)"

text \<open>One day of the Markov chain on \<open>(calmProb, elevatedProb, hotProb)\<close>, and \<open>d\<close> days of it.\<close>

definition transitionStep :: "real \<times> real \<times> real \<Rightarrow> real \<times> real \<times> real" where
  "transitionStep p =
     (case p of (calmProb, elevatedProb, hotProb) \<Rightarrow>
        (calmProb * toCalm (TRANSITION_MATRIX calm)
           + elevatedProb * toCalm (TRANSITION_MATRIX elevated)
           + hotProb * toCalm (TRANSITION_MATRIX hot),
         calmProb * toElevated (TRANSITION_MATRIX calm)
           + elevatedProb * toElevated (TRANSITION_MATRIX elevated)
           + hotProb * toElevated (TRANSITION_MATRIX hot),
         calmProb * toHot (TRANSITION_MATRIX calm)
           + elevatedProb * toHot (TRANSITION_MATRIX elevated)
           + hotProb * toHot (TRANSITION_MATRIX hot)))"

primrec transitionDays :: "nat \<Rightarrow> real \<times> real \<times> real \<Rightarrow> real \<times> real \<times> real" where
  "transitionDays 0 p = p"
| "transitionDays (Suc d) p = transitionDays d (transitionStep p)"

text \<open>
  \<open>forecastExecutionYield\<close> is called with the loop counter of the simulator as
  \<open>daysAhead\<close>, a natural number; its parameter \<open>currentRegime\<close> is \<open>curRegime\<close> here
  (the name is a field of \<open>RegimeDetection\<close>). \<open>Math.pow(0.5, daysAhead / halfLife)\<close> is the real
  power \<open>powr\<close>. No denominator can be zero.
\<close>

definition forecastExecutionYield ::
  "real \<Rightarrow> FeeRegime \<Rightarrow> nat \<Rightarrow> real \<Rightarrow> ExecutionYieldForecast" where
  "forecastExecutionYield currentYield curRegime daysAhead activeValidators =
     (let transitions = TRANSITION_MATRIX curRegime;
          decayFactor = 0.5 powr (real daysAhead / MEAN_REVERSION_halfLife curRegime);
          revertedYield = currentYield * decayFactor
                          + MEAN_REVERSION_target curRegime * (1 - decayFactor);
          (calmProb, elevatedProb, hotProb) =
             transitionDays daysAhead
               ((if curRegime = calm then 1 else 0),
                (if curRegime = elevated then 1 else 0),
                (if curRegime = hot then 1 else 0));
          expectedRegime =
            (if calmProb \<ge> elevatedProb \<and> calmProb \<ge> hotProb then calm
             else if elevatedProb \<ge> hotProb then elevated
             else hot);
          regimeTarget = MEAN_REVERSION_target expectedRegime;
          finalYield = revertedYield * 0.7 + regimeTarget * 0.3;
          annualizedAPR = (finalYield * 365 / 32) * 100;
          uncertaintyFactor = 1 + sqrt (real daysAhead) * 0.1;
          feeRatio = 0.4;
          priorityFees = finalYield * feeRatio;
          mevRewards = finalYield * (1 - feeRatio)
      in \<lparr>dailyYieldETH = finalYield,
          annualizedAPR = annualizedAPR,
          regime = expectedRegime,
          confidence = \<lparr>lower = annualizedAPR / uncertaintyFactor,
                         upper = annualizedAPR * uncertaintyFactor\<rparr>,
          components = \<lparr>priorityFees = (priorityFees * 365 / 32) * 100,
                         mevRewards = (mevRewards * 365 / 32) * 100\<rparr>\<rparr>)"

text \<open>
  \<open>generateMockExecutionHistory\<close> reads the clock once and calls \<open>Math.random()\<close> four
  times per day. The model takes the clock value \<open>now\<close> and the sequence \<open>rnd\<close> of the
  values that \<open>Math.random()\<close> returns, \<open>rnd k\<close> being the value of call number \<open>k\<close>.
  The loop runs \<open>i\<close> from \<open>days\<close> down to \<open>0\<close>; \<open>mockDays\<close> takes the number of
  iterations left, which is \<open>i + 1\<close>.
\<close>

primrec mockDays ::
  "(nat \<Rightarrow> real) \<Rightarrow> int \<Rightarrow> real \<Rightarrow> nat \<Rightarrow> nat \<Rightarrow> FeeRegime \<Rightarrow> nat \<Rightarrow> ExecutionDataPoint list" where
  "mockDays rnd now activeValidators 0 k curRegime daysInCurrentRegime = []"
| "mockDays rnd now activeValidators (Suc i) k curRegime daysInCurrentRegime =
     (let date = now - int i * 86400000;
          trans = TRANSITION_MATRIX curRegime;
          roll = rnd k;
          newRegime = (if roll < toCalm trans then calm
                       else if roll < toCalm trans + toElevated trans then elevated
                       else hot);
          daysInNewRegime = (if curRegime \<noteq> newRegime then 0 else daysInCurrentRegime) + 1;
          baseYield = MEAN_REVERSION_target newRegime * activeValidators;
          noise = (rnd (k + 1) - 0.5) * baseYield * 0.4;
          totalYield = max 0 (baseYield + noise);
          feeRatio = 0.35 + rnd (k + 2) * 0.1;
          baseGas = (if newRegime = hot then 50 else if newRegime = elevated then 25 else 10);
          point = \<lparr>ExecutionDataPoint.timestamp = date,
                   priorityFeesETH = totalYield * feeRatio,
                   mevRewardsETH = totalYield * (1 - feeRatio),
                   avgGasPrice = baseGas + rnd (k + 3) * 10,
                   blockCount = 7200\<rparr>
      in point # mockDays rnd now activeValidators i (k + 4) newRegime daysInNewRegime)"

definition generateMockExecutionHistory ::
  "(nat \<Rightarrow> real) \<Rightarrow> int \<Rightarrow> nat \<Rightarrow> real \<Rightarrow> ExecutionDataPoint list" where
  "generateMockExecutionHistory rnd now days activeValidators =
     mockDays rnd now activeValidators (Suc days) 0 calm 0"

section \<open>forecast.ts\<close>

text \<open>
  \<open>calculateQueuePressure\<close> computes two quotients that it does not use; their
  denominator, the churn limit times \<open>EPOCHS_PER_DAY\<close>, is at least 900.
\<close>

definition calculateQueuePressure :: "real \<Rightarrow> real \<Rightarrow> real \<Rightarrow> real" where
  "calculateQueuePressure entryQueueLength exitQueueLength activeValidators =
     (let churnLimit = getChurnLimit activeValidators;
          validatorsPerDay = churnLimit * EPOCHS_PER_DAY;
          entryDays = entryQueueLength / validatorsPerDay;
          exitDays = exitQueueLength / validatorsPerDay
      in entryQueueLength - exitQueueLength)"

definition getMaxDailyStakeChange :: "real \<Rightarrow> real" where
  "getMaxDailyStakeChange activeValidators =
     (let churnLimit = getChurnLimit activeValidators;
          validatorsPerDay = churnLimit * EPOCHS_PER_DAY
      in validatorsPerDay * 32)"

text \<open>The default \<open>targetAPR = 4.0\<close> is passed by the caller.\<close>

definition applyAPRFeedback :: "real \<Rightarrow> real \<Rightarrow> real \<Rightarrow> real" where
  "applyAPRFeedback baseGrowthRate currentAPR targetAPR =
     (let aprDiff = currentAPR - targetAPR;
          feedbackFactor = aprDiff * 0.1
      in baseGrowthRate * (1 + feedbackFactor))"

record HistoricalDataPoint =
  timestamp :: int
  totalStakedETH :: real
  activeValidators :: real
  entryQueueLength :: real
  exitQueueLength :: real
  observedAPR :: "real option"

text \<open>
  The four percentages of \<open>DriverAttribution\<close> are quotients by \<open>totalAPR\<close> and by the
  scaled execution APR. Each is a number, or \<open>None\<close> where the program's value is
  \<open>Infinity\<close> or \<open>NaN\<close> because one of the two is zero.
\<close>

record DriverAttribution =
  consensusAPR :: real
  executionAPR :: real
  totalAPR :: real
  consensusPct :: "real option"
  executionPct :: "real option"
  priorityFeesPct :: "real option"
  mevPct :: "real option"
  feeRegime :: FeeRegime

record ForecastComponents =
  protocolBase :: real
  trendAdjustment :: real
  queueConstraint :: real

record ForecastPoint =
  date :: int
  totalStakedETH :: real
  stakeRatio :: real
  forecastAPR :: real
  confidence :: Confidence
  components :: ForecastComponents
  drivers :: DriverAttribution

datatype FeeRegimeBias = current | forced FeeRegime

record ScenarioParams =
  netFlowBias :: real
  mevMultiplier :: real
  queuePressure :: real
  feeRegimeBias :: FeeRegimeBias

definition DEFAULT_SCENARIO :: ScenarioParams where
  "DEFAULT_SCENARIO =
     \<lparr>netFlowBias = 0, mevMultiplier = 1.0, queuePressure = 1.0, feeRegimeBias = current\<rparr>"

record StakingTrend =
  dailyGrowthRate :: real
  volatility :: real
  r2 :: "real option"

text \<open>The daily changes between neighbours of the sorted history, in order.\<close>

fun dailyChangesOf :: "HistoricalDataPoint list \<Rightarrow> real list" where
  "dailyChangesOf (previous # point # rest) =
     (let daysDiff = real_of_int (HistoricalDataPoint.timestamp point
                                  - HistoricalDataPoint.timestamp previous)
                     / (24 * 60 * 60 * 1000);
          stakeDiff = HistoricalDataPoint.totalStakedETH point
                      - HistoricalDataPoint.totalStakedETH previous
      in (if daysDiff > 0 then [stakeDiff / daysDiff] else [])
         @ dailyChangesOf (point # rest))"
| "dailyChangesOf [point] = []"
| "dailyChangesOf [] = []"

definition calculateStakingTrend :: "HistoricalDataPoint list \<Rightarrow> StakingTrend" where
  "calculateStakingTrend history =
     (if length history < 2 then \<lparr>dailyGrowthRate = 0, volatility = 0, r2 = Some 0\<rparr>
      else
        let sortedHistory = sort_key HistoricalDataPoint.timestamp history;
            dailyChanges = dailyChangesOf sortedHistory
        in if length dailyChanges = 0 then
             \<lparr>dailyGrowthRate = 0, volatility = 0, r2 = Some 0\<rparr>
           else
             let regressionData = map (\<lambda>(i, point). (real i, HistoricalDataPoint.totalStakedETH point))
                                      (enumerate 0 sortedHistory);
                 (m, b) = linearRegression regressionData;
                 avgDailyGrowth = mean dailyChanges;
                 volatility = (if length dailyChanges > 1 then standardDeviation dailyChanges
                               else 0);
                 predictions = map (\<lambda>(x, y). m * x + b) regressionData;
                 actuals = map (\<lambda>(x, y). y) regressionData;
                 r2 = (case sampleCorrelation predictions actuals of
                         None \<Rightarrow> None
                       | Some correlation \<Rightarrow> Some (correlation * correlation))
             in \<lparr>dailyGrowthRate = avgDailyGrowth, volatility = volatility, r2 = r2\<rparr>)"

text \<open>The running state of the simulation loop.\<close>

record SimState =
  currentStake :: real
  currentValidators :: real
  currentEntryQueue :: real
  currentExitQueue :: real

text \<open>
  One pass through the body of the loop of \<open>generateForecast\<close>: the point pushed for
  \<open>day\<close> and the state after it. The date is \<open>day\<close> calendar days after the latest
  timestamp (\<open>setDate(getDate() + day)\<close>, taken in UTC, where a day is 86400000 ms).
  The consensus APR can be \<open>Infinity\<close> (a positive stake below one Gwei); the model
  stops there.
\<close>

definition forecastDay ::
  "HistoricalDataPoint \<Rightarrow> StakingTrend \<Rightarrow> ScenarioParams \<Rightarrow> real \<Rightarrow> FeeRegime \<Rightarrow> real
     \<Rightarrow> nat \<Rightarrow> SimState \<Rightarrow> (ForecastPoint \<times> SimState) option" where
  "forecastDay latestState trend scenario maxDailyChange baseRegime currentExecYield day st =
     (let forecastDate = HistoricalDataPoint.timestamp latestState + int day * 86400000 in
      case getTheoreticalAPR (currentStake st) of
        None \<Rightarrow> None
      | Some apr \<Rightarrow>
         (let consensusAPR = apr;
              execForecast = forecastExecutionYield currentExecYield baseRegime day
                               (currentValidators st);
              adjustedExecAPR = annualizedAPR execForecast * mevMultiplier scenario;
              totalAPR = consensusAPR + adjustedExecAPR;
              drivers =
                \<lparr>consensusAPR = consensusAPR,
                 executionAPR = adjustedExecAPR,
                 totalAPR = totalAPR,
                 consensusPct = (if totalAPR = 0 then None
                                 else Some ((consensusAPR / totalAPR) * 100)),
                 executionPct = (if totalAPR = 0 then None
                                 else Some ((adjustedExecAPR / totalAPR) * 100)),
                 priorityFeesPct = (if adjustedExecAPR = 0 \<or> totalAPR = 0 then None
                                    else Some ((priorityFees (ExecutionYieldForecast.components execForecast)
                                                 / adjustedExecAPR)
                                               * (adjustedExecAPR / totalAPR) * 100)),
                 mevPct = (if adjustedExecAPR = 0 \<or> totalAPR = 0 then None
                           else Some ((mevRewards (ExecutionYieldForecast.components execForecast)
                                        / adjustedExecAPR)
                                      * (adjustedExecAPR / totalAPR) * 100)),
                 feeRegime = regime execForecast\<rparr>;
              feedbackGrowth = applyAPRFeedback
                 (dailyGrowthRate trend + netFlowBias scenario * maxDailyChange * 0.1)
                 totalAPR 4.0;
              netQueueFlow = (currentEntryQueue st - currentExitQueue st) * 32;
              expectedGrowth = (if feedbackGrowth > 0 then min feedbackGrowth maxDailyChange
                                else max feedbackGrowth (- maxDailyChange));
              newStake = max 0 (currentStake st + expectedGrowth);
              newValidators = real_of_int \<lfloor>newStake / 32\<rfloor>;
              dailyChurn = getChurnLimit newValidators * EPOCHS_PER_DAY;
              newEntryQueue = max 0 (currentEntryQueue st - dailyChurn);
              newExitQueue = max 0 (currentExitQueue st - dailyChurn);
              daysFromStart = real day;
              uncertaintyGrowth = sqrt daysFromStart * volatility trend * 32;
              confidenceMultiplier = 1.96;
              stakeRatio = getStakeRatio newStake
          in Some
               (\<lparr>date = forecastDate,
                 totalStakedETH = newStake,
                 stakeRatio = stakeRatio,
                 forecastAPR = totalAPR,
                 confidence = \<lparr>lower = max 0 (newStake - confidenceMultiplier * uncertaintyGrowth),
                                upper = newStake + confidenceMultiplier * uncertaintyGrowth\<rparr>,
                 components = \<lparr>protocolBase = consensusAPR,
                                trendAdjustment = expectedGrowth,
                                queueConstraint = maxDailyChange\<rparr>,
                 drivers = drivers\<rparr>,
                \<lparr>currentStake = newStake,
                 currentValidators = newValidators,
                 currentEntryQueue = newEntryQueue,
                 currentExitQueue = newExitQueue\<rparr>)))"

text \<open>
  The loop \<open>for (let day = 1; day <= daysToForecast; day++)\<close>: \<open>forecastDays\<close> takes the
  number of days left and the current day and returns the points pushed from there on.
\<close>

primrec forecastDays ::
  "HistoricalDataPoint \<Rightarrow> StakingTrend \<Rightarrow> ScenarioParams \<Rightarrow> real \<Rightarrow> FeeRegime \<Rightarrow> real
     \<Rightarrow> nat \<Rightarrow> nat \<Rightarrow> SimState \<Rightarrow> ForecastPoint list option" where
  "forecastDays latestState trend scenario maxDailyChange baseRegime currentExecYield 0 day st =
     Some []"
| "forecastDays latestState trend scenario maxDailyChange baseRegime currentExecYield (Suc n) day st =
     (case forecastDay latestState trend scenario maxDailyChange baseRegime currentExecYield day st of
        None \<Rightarrow> None
      | Some (point, st') \<Rightarrow>
          (case forecastDays latestState trend scenario maxDailyChange baseRegime currentExecYield
                  n (Suc day) st' of
             None \<Rightarrow> None
           | Some points \<Rightarrow> Some (point # points)))"

text \<open>\<open>forecasts.filter((_, i) => (i + 1) % 30 === 0 || i === forecasts.length - 1)\<close>\<close>

definition monthlySnapshots :: "ForecastPoint list \<Rightarrow> ForecastPoint list" where
  "monthlySnapshots forecasts =
     map snd (filter (\<lambda>(i, point). (i + 1) mod 30 = 0 \<or> int i = int (length forecasts) - 1)
                     (enumerate 0 forecasts))"

text \<open>
  \<open>NoHistoricalData\<close> is the \<open>Error('No historical data provided')\<close> that
  \<open>generateForecast\<close> throws. \<open>NotFinite\<close> is not thrown by the program: it marks a run
  in which the current execution yield or a consensus APR is \<open>Infinity\<close> or \<open>NaN\<close>;
  the program returns a list of points there, which the model does not describe.
\<close>

datatype error = NoHistoricalData | NotFinite

text \<open>
  \<open>executionHistory\<close> is optional; \<open>executionHistory || generateMock...\<close> takes the mock
  history only when the argument is omitted (an empty array is truthy). \<open>rnd\<close> and \<open>now\<close>
  are the random values and the clock that the mock generator would read.
\<close>

definition generateForecast ::
  "(nat \<Rightarrow> real) \<Rightarrow> int \<Rightarrow> HistoricalDataPoint list \<Rightarrow> real \<Rightarrow> ScenarioParams
     \<Rightarrow> ExecutionDataPoint list option \<Rightarrow> error + ForecastPoint list" where
  "generateForecast rnd now history monthsAhead scenario executionHistory =
     (if length history = 0 then Inl NoHistoricalData
      else
        let sortedHistory = sort_key (\<lambda>p. - HistoricalDataPoint.timestamp p) history;
            latestState = hd sortedHistory;
            trend = calculateStakingTrend history;
            queuePressure = calculateQueuePressure
               (entryQueueLength latestState * queuePressure scenario)
               (exitQueueLength latestState * queuePressure scenario)
               (activeValidators latestState);
            maxDailyChange = getMaxDailyStakeChange (activeValidators latestState);
            execHistory = (case executionHistory of
                             Some given \<Rightarrow> given
                           | None \<Rightarrow> generateMockExecutionHistory rnd now 90
                                        (activeValidators latestState))
        in case detectRegime execHistory (activeValidators latestState) of
             None \<Rightarrow> Inl NotFinite
           | Some regimeDetection \<Rightarrow>
              (let baseRegime = (case feeRegimeBias scenario of
                                   current \<Rightarrow> currentRegime regimeDetection
                                 | forced r \<Rightarrow> r);
                   recentExec = take 7 execHistory
               in case (if length recentExec > 0 then
                          (if activeValidators latestState = 0 then None
                           else Some (mean (map (\<lambda>d. (priorityFeesETH d + mevRewardsETH d)
                                                       / activeValidators latestState) recentExec)))
                        else Some 0.001) of
                    None \<Rightarrow> Inl NotFinite
                  | Some currentExecYield \<Rightarrow>
                     (let daysToForecast = monthsAhead * 30;
                          st = \<lparr>currentStake = HistoricalDataPoint.totalStakedETH latestState,
                                currentValidators = activeValidators latestState,
                                currentEntryQueue = entryQueueLength latestState,
                                currentExitQueue = exitQueueLength latestState\<rparr>
                      in case forecastDays latestState trend scenario maxDailyChange baseRegime
                                currentExecYield (nat \<lfloor>daysToForecast\<rfloor>) 1 st of
                           None \<Rightarrow> Inl NotFinite
                         | Some forecasts \<Rightarrow> Inr (monthlySnapshots forecasts))))"


definition BULLISH_SCENARIO :: ScenarioParams where
  "BULLISH_SCENARIO =
     \<lparr>netFlowBias = 0.5, mevMultiplier = 1.3, queuePressure = 1.5,
      feeRegimeBias = forced elevated\<rparr>"



section \<open>Names for the parts of the loop body\<close>

text \<open>
  The lemmas on \<open>forecastDay\<close> are stated with names for three parts of its body: the
  driver attribution, the growth after the queue constraint, and the point pushed.
  Each is the corresponding expression of \<open>forecastDay\<close> with its local constants
  written out; \<open>forecastDay_unfold\<close> below proves that \<open>forecastDay\<close> is made of them.
\<close>

definition driverAttribution ::
  "real \<Rightarrow> ExecutionYieldForecast \<Rightarrow> ScenarioParams \<Rightarrow> DriverAttribution" where
  "driverAttribution consensus execForecast scenario =
     \<lparr>consensusAPR = consensus,
      executionAPR = annualizedAPR execForecast * mevMultiplier scenario,
      totalAPR = consensus + annualizedAPR execForecast * mevMultiplier scenario,
      consensusPct =
        (if consensus + annualizedAPR execForecast * mevMultiplier scenario = 0 then None
         else Some ((consensus / (consensus + annualizedAPR execForecast * mevMultiplier scenario))
                    * 100)),
      executionPct =
        (if consensus + annualizedAPR execForecast * mevMultiplier scenario = 0 then None
         else Some ((annualizedAPR execForecast * mevMultiplier scenario
                     / (consensus + annualizedAPR execForecast * mevMultiplier scenario)) * 100)),
      priorityFeesPct =
        (if annualizedAPR execForecast * mevMultiplier scenario = 0
            \<or> consensus + annualizedAPR execForecast * mevMultiplier scenario = 0 then None
         else Some ((priorityFees (ExecutionYieldForecast.components execForecast)
                      / (annualizedAPR execForecast * mevMultiplier scenario))
                    * (annualizedAPR execForecast * mevMultiplier scenario
                       / (consensus + annualizedAPR execForecast * mevMultiplier scenario))
                    * 100)),
      mevPct =
        (if annualizedAPR execForecast * mevMultiplier scenario = 0
            \<or> consensus + annualizedAPR execForecast * mevMultiplier scenario = 0 then None
         else Some ((mevRewards (ExecutionYieldForecast.components execForecast)
                      / (annualizedAPR execForecast * mevMultiplier scenario))
                    * (annualizedAPR execForecast * mevMultiplier scenario
                       / (consensus + annualizedAPR execForecast * mevMultiplier scenario))
                    * 100)),
      feeRegime = regime execForecast\<rparr>"

definition constrainedGrowth :: "StakingTrend \<Rightarrow> ScenarioParams \<Rightarrow> real \<Rightarrow> real \<Rightarrow> real" where
  "constrainedGrowth trend scenario maxDailyChange apr =
     (if applyAPRFeedback (dailyGrowthRate trend + netFlowBias scenario * maxDailyChange * 0.1)
           apr 4.0 > 0
      then min (applyAPRFeedback
                  (dailyGrowthRate trend + netFlowBias scenario * maxDailyChange * 0.1) apr 4.0)
               maxDailyChange
      else max (applyAPRFeedback
                  (dailyGrowthRate trend + netFlowBias scenario * maxDailyChange * 0.1) apr 4.0)
               (- maxDailyChange))"

definition dayPoint ::
  "HistoricalDataPoint \<Rightarrow> StakingTrend \<Rightarrow> ScenarioParams \<Rightarrow> real \<Rightarrow> nat \<Rightarrow> real
     \<Rightarrow> ExecutionYieldForecast \<Rightarrow> real \<Rightarrow> ForecastPoint" where
  "dayPoint latestState trend scenario maxDailyChange day consensus execForecast stake =
     \<lparr>date = HistoricalDataPoint.timestamp latestState + int day * 86400000,
      totalStakedETH = max 0 (stake + constrainedGrowth trend scenario maxDailyChange
                                 (consensus + annualizedAPR execForecast * mevMultiplier scenario)),
      stakeRatio = getStakeRatio (max 0 (stake + constrainedGrowth trend scenario maxDailyChange
                                 (consensus + annualizedAPR execForecast * mevMultiplier scenario))),
      forecastAPR = consensus + annualizedAPR execForecast * mevMultiplier scenario,
      confidence =
        \<lparr>lower = max 0 (max 0 (stake + constrainedGrowth trend scenario maxDailyChange
                                 (consensus + annualizedAPR execForecast * mevMultiplier scenario))
                        - 1.96 * (sqrt (real day) * volatility trend * 32)),
         upper = max 0 (stake + constrainedGrowth trend scenario maxDailyChange
                                 (consensus + annualizedAPR execForecast * mevMultiplier scenario))
                 + 1.96 * (sqrt (real day) * volatility trend * 32)\<rparr>,
      components =
        \<lparr>protocolBase = consensus,
         trendAdjustment = constrainedGrowth trend scenario maxDailyChange
                             (consensus + annualizedAPR execForecast * mevMultiplier scenario),
         queueConstraint = maxDailyChange\<rparr>,
      drivers = driverAttribution consensus execForecast scenario\<rparr>"

section \<open>Example inputs\<close>

text \<open>
  The state of the spec's example (34.5 million ETH staked, 1078125 validators, queues
  of 2500 and 800), and eight days of execution data listed latest first: seven days
  with 500 ETH of fees and MEV, and before them one day with 800 ETH.
\<close>

definition exampleState :: HistoricalDataPoint where
  "exampleState =
     \<lparr>HistoricalDataPoint.timestamp = 0, totalStakedETH = 34500000, activeValidators = 1078125,
      entryQueueLength = 2500, exitQueueLength = 800, observedAPR = None\<rparr>"

definition executionDay :: "int \<Rightarrow> real \<Rightarrow> real \<Rightarrow> ExecutionDataPoint" where
  "executionDay k fees mev =
     \<lparr>ExecutionDataPoint.timestamp = k * 86400000, priorityFeesETH = fees, mevRewardsETH = mev,
      avgGasPrice = 10, blockCount = 7200\<rparr>"

definition latestFirst :: "ExecutionDataPoint list" where
  "latestFirst =
     [executionDay 8 200 300, executionDay 7 200 300, executionDay 6 200 300,
      executionDay 5 200 300, executionDay 4 200 300, executionDay 3 200 300,
      executionDay 2 200 300, executionDay 1 320 480]"



definition noRandom :: "nat \<Rightarrow> real" where
  "noRandom k = 0"


section \<open>The reward curve\<close>

lemma EPOCHS_PER_DAY_eq: "EPOCHS_PER_DAY = 225"
  by (simp add: EPOCHS_PER_DAY_def SECONDS_PER_EPOCH_def SECONDS_PER_SLOT_def
      SLOTS_PER_EPOCH_def)

lemma EPOCHS_PER_YEAR_eq: "EPOCHS_PER_YEAR = 8218125 / 100"
  by (simp add: EPOCHS_PER_YEAR_def EPOCHS_PER_DAY_eq)

lemma floor_sqrt_eqI:
  assumes "0 \<le> n" and "(real_of_int n)\<^sup>2 \<le> x" and "x < (real_of_int n + 1)\<^sup>2"
  shows "\<lfloor>sqrt x\<rfloor> = n"
proof (rule floor_unique)
  show "real_of_int n \<le> sqrt x"
    using assms(2) by (rule real_le_rsqrt)
  have "sqrt x < sqrt ((real_of_int n + 1)\<^sup>2)"
    using assms(3) by (rule real_sqrt_less_mono)
  also have "\<dots> = real_of_int n + 1"
    using assms(1) by simp
  finally show "sqrt x < real_of_int n + 1" .
qed

lemma floor_sqrt_pos:
  assumes "1 \<le> x"
  shows "1 \<le> \<lfloor>sqrt x\<rfloor>"
proof -
  have "1 \<le> sqrt x" using assms by simp
  then show ?thesis by linarith
qed

lemma getTheoreticalAPR_eq:
  assumes "1 / 1000000000 \<le> S"
  shows "getTheoreticalAPR S =
           Some (2103840000 / real_of_int \<lfloor>sqrt (S * 1000000000)\<rfloor>)"
proof -
  have g: "1 \<le> S * 1000000000" using assms by (simp add: field_simps)
  then have "1 \<le> \<lfloor>sqrt (S * 1000000000)\<rfloor>" by (rule floor_sqrt_pos)
  then have r: "\<lfloor>sqrt (S * 1000000000)\<rfloor> \<noteq> 0" by linarith
  have S: "0 < S" "\<not> S < 0" using assms by simp_all
  from r S show ?thesis
    by (simp add: getTheoreticalAPR_def getBaseRewardPerEpoch_def Let_def
        BASE_REWARD_FACTOR_def BASE_REWARDS_PER_EPOCH_def EPOCHS_PER_YEAR_eq)
qed

lemma floor_sqrt_mono: "x \<le> y \<Longrightarrow> \<lfloor>sqrt x\<rfloor> \<le> \<lfloor>sqrt y\<rfloor>"
  by (simp add: floor_mono)

text \<open>
  Claim C3, as amended. On stakes of at least one Gwei \<open>getTheoreticalAPR\<close> is
  non-increasing: for \<open>1e-9 \<le> S1 \<le> S2\<close> both values are numbers and the APR at
  \<open>S2\<close> is at most the APR at \<open>S1\<close>. It is strictly smaller exactly when the floors
  of the square roots of the two stakes, taken in Gwei, differ.
\<close>

theorem getTheoreticalAPR_nonincreasing:
  assumes "1 / 1000000000 \<le> S1" and "S1 \<le> S2"
  shows "\<exists>a1 a2. getTheoreticalAPR S1 = Some a1 \<and> getTheoreticalAPR S2 = Some a2 \<and> a2 \<le> a1
           \<and> (a2 < a1 \<longleftrightarrow> \<lfloor>sqrt (S1 * 1000000000)\<rfloor> < \<lfloor>sqrt (S2 * 1000000000)\<rfloor>)"
proof -
  let ?r1 = "\<lfloor>sqrt (S1 * 1000000000)\<rfloor>" and ?r2 = "\<lfloor>sqrt (S2 * 1000000000)\<rfloor>"
  have "1 \<le> S1 * 1000000000" using assms(1) by (simp add: field_simps)
  then have p1: "1 \<le> ?r1" by (rule floor_sqrt_pos)
  have le: "?r1 \<le> ?r2" using assms(2) by (intro floor_sqrt_mono) simp
  have p2: "1 \<le> ?r2" using p1 le by linarith
  have e1: "getTheoreticalAPR S1 = Some (2103840000 / real_of_int ?r1)"
    using assms(1) by (rule getTheoreticalAPR_eq)
  have e2: "getTheoreticalAPR S2 = Some (2103840000 / real_of_int ?r2)"
    using assms by (intro getTheoreticalAPR_eq) linarith
  have r1: "0 < real_of_int ?r1" and r2: "0 < real_of_int ?r2" using p1 p2 by linarith+
  have mono: "2103840000 / real_of_int ?r2 \<le> 2103840000 / real_of_int ?r1"
    using le r1 by (intro divide_left_mono) (auto intro: mult_pos_pos r2)
  have strict: "2103840000 / real_of_int ?r2 < 2103840000 / real_of_int ?r1 \<longleftrightarrow> ?r1 < ?r2"
    using r1 r2 by (simp add: field_simps)
  show ?thesis using e1 e2 mono strict by simp
qed

text \<open>
  The hypotheses hold at \<open>S1 = 1\<close>, \<open>S2 = 4\<close>, where the APR falls strictly.
\<close>

theorem getTheoreticalAPR_nonincreasing_witness:
  "getTheoreticalAPR 1 = Some (2103840000 / 31622) \<and> getTheoreticalAPR 4 = Some (2103840000 / 63245)
   \<and> (2103840000 / 63245 :: real) < 2103840000 / 31622"
proof -
  have f1: "\<lfloor>sqrt (1 * 1000000000)\<rfloor> = 31622" by (rule floor_sqrt_eqI) simp_all
  have f4: "\<lfloor>sqrt (4 * 1000000000)\<rfloor> = 63245" by (rule floor_sqrt_eqI) simp_all
  have h1: "1 / 1000000000 \<le> (1::real)" and h2: "(1::real) \<le> 4" by simp_all
  from getTheoreticalAPR_nonincreasing [OF h1 h2] f1 f4 show ?thesis
    using getTheoreticalAPR_eq[of 1] getTheoreticalAPR_eq[of 4] by simp 
qed

text \<open>
  Claim C3 as stated fails: the stakes \<open>34500000\<close> and \<open>34500000.125\<close> are positive
  and different, and have the same theoretical APR, because the floor of the square
  root is \<open>185741756\<close> for both.
\<close>

theorem getTheoreticalAPR_plateau:
  "(0::real) < 34500000 \<and> (34500000::real) < 34500000.125
   \<and> getTheoreticalAPR 34500000 = Some (2103840000 / 185741756)
   \<and> getTheoreticalAPR 34500000.125 = Some (2103840000 / 185741756)"
proof -
  have f1: "\<lfloor>sqrt (34500000 * 1000000000)\<rfloor> = 185741756" by (rule floor_sqrt_eqI) simp_all
  have f2: "\<lfloor>sqrt (34500000.125 * 1000000000)\<rfloor> = 185741756" by (rule floor_sqrt_eqI) simp_all
  show ?thesis using getTheoreticalAPR_eq[of 34500000] getTheoreticalAPR_eq[of "34500000.125"] f1 f2
    by simp
qed

lemma getEquilibrium_of_quotient:
  assumes "0 < r"
  shows "getEquilibriumStakeForAPR (2103840000 / r) = r\<^sup>2 / 1000000000"
proof -
  have "0 < 2103840000 / r" using assms by simp
  then have "\<not> 2103840000 / r \<le> 0" by linarith
  then show ?thesis using assms
    by (simp add: getEquilibriumStakeForAPR_def Let_def BASE_REWARD_FACTOR_def
        BASE_REWARDS_PER_EPOCH_def EPOCHS_PER_YEAR_eq power2_eq_square)
qed

text \<open>
  Claim C9, as amended. For a stake \<open>S\<close> of at least one Gwei the round trip
  \<open>getEquilibriumStakeForAPR (getTheoreticalAPR S)\<close> returns the square of
  \<open>floor (sqrt (S * 1e9))\<close>, in ETH. The result never exceeds \<open>S\<close> and falls short of
  it by less than \<open>2 * sqrt (S * 1e9) / 1e9\<close>.
\<close>

theorem equilibrium_roundtrip_floor:
  assumes "1 / 1000000000 \<le> S"
  shows "map_option getEquilibriumStakeForAPR (getTheoreticalAPR S)
           = Some ((real_of_int \<lfloor>sqrt (S * 1000000000)\<rfloor>)\<^sup>2 / 1000000000)
         \<and> (real_of_int \<lfloor>sqrt (S * 1000000000)\<rfloor>)\<^sup>2 / 1000000000 \<le> S
         \<and> S - (real_of_int \<lfloor>sqrt (S * 1000000000)\<rfloor>)\<^sup>2 / 1000000000
             < 2 * sqrt (S * 1000000000) / 1000000000"
proof -
  let ?x = "S * 1000000000"
  let ?r = "real_of_int \<lfloor>sqrt ?x\<rfloor>"
  have x1: "1 \<le> ?x" using assms by (simp add: field_simps)
  then have "1 \<le> \<lfloor>sqrt ?x\<rfloor>" by (rule floor_sqrt_pos)
  then have r1: "1 \<le> ?r" by linarith
  have sx: "(sqrt ?x)\<^sup>2 = ?x" using x1 by simp
  have le: "?r \<le> sqrt ?x" by (rule of_int_floor_le)
  have lt: "sqrt ?x < ?r + 1" by linarith
  have a: "map_option getEquilibriumStakeForAPR (getTheoreticalAPR S) = Some (?r\<^sup>2 / 1000000000)"
    using getTheoreticalAPR_eq[OF assms] getEquilibrium_of_quotient[of ?r] r1 by simp
  have "?r\<^sup>2 \<le> (sqrt ?x)\<^sup>2" using le r1 by (intro power_mono) linarith+
  then have b1: "?r\<^sup>2 \<le> ?x" using sx by simp
  have "?x - ?r\<^sup>2 < 2 * sqrt ?x"
  proof (cases "sqrt ?x = ?r")
    case True
    then have "?x - ?r\<^sup>2 = 0" using sx by simp
    then show ?thesis using r1 le by linarith
  next
    case False
    then have d: "0 < sqrt ?x - ?r" using le by linarith
    have "?x - ?r\<^sup>2 = (sqrt ?x - ?r) * (sqrt ?x + ?r)"
      using sx by (simp add: algebra_simps power2_eq_square)
    also have "\<dots> < 1 * (sqrt ?x + ?r)"
      using lt le r1 by (intro mult_strict_right_mono) linarith+
    also have "\<dots> \<le> 2 * sqrt ?x" by simp
    finally show ?thesis .
  qed
  then have b2: "S - ?r\<^sup>2 / 1000000000 < 2 * sqrt ?x / 1000000000"
    by (simp add: field_simps)
  have b1': "?r\<^sup>2 / 1000000000 \<le> S" using b1 by (simp add: field_simps)
  show ?thesis using a b1' b2 by blast
qed

text \<open>
  The hypothesis holds at \<open>S = 32\<close>, where the round trip returns \<open>31.999843225\<close>.
\<close>

theorem equilibrium_roundtrip_floor_witness:
  "map_option getEquilibriumStakeForAPR (getTheoreticalAPR 32) = Some (31999843225 / 1000000000)"
proof -
  have f: "\<lfloor>sqrt (32 * 1000000000)\<rfloor> = 178885" by (rule floor_sqrt_eqI) simp_all
  have h: "1 / 1000000000 \<le> (32::real)" by simp
  have "map_option getEquilibriumStakeForAPR (getTheoreticalAPR 32)
          = Some ((real_of_int \<lfloor>sqrt (32 * 1000000000)\<rfloor>)\<^sup>2 / 1000000000)"
    using equilibrium_roundtrip_floor [OF h] by (rule conjunct1)
  then show ?thesis unfolding f by simp
qed

text \<open>
  Claim C9 as stated fails beyond any rounding error: at the stake \<open>34500000\<close> the
  round trip returns \<open>34499999.921963536\<close>, which is \<open>0.078036464\<close> ETH short, and at
  the stake \<open>2\<close> it returns \<open>1.999967841\<close>.
\<close>

theorem equilibrium_roundtrip_inexact:
  "map_option getEquilibriumStakeForAPR (getTheoreticalAPR 34500000)
     = Some (34500000 - 78036464 / 1000000000)
   \<and> map_option getEquilibriumStakeForAPR (getTheoreticalAPR 2)
     = Some (2 - 32159 / 1000000000)"
proof -
  have f1: "\<lfloor>sqrt (34500000 * 1000000000)\<rfloor> = 185741756" by (rule floor_sqrt_eqI) simp_all
  have f2: "\<lfloor>sqrt (2 * 1000000000)\<rfloor> = 44721" by (rule floor_sqrt_eqI) simp_all
  show ?thesis
    using getTheoreticalAPR_eq[of 34500000] getTheoreticalAPR_eq[of 2] f1 f2
      getEquilibrium_of_quotient[of 185741756] getEquilibrium_of_quotient[of 44721]
    by simp
qed

section \<open>The regime detector\<close>

text \<open>
  Claim C7. On an empty history \<open>detectRegime\<close> returns, for every validator count
  (zero included), the detection \<open>calm\<close> with confidence \<open>0.5\<close>, no day in the regime
  and the \<open>calm\<close> row of the transition matrix; it is a value, not a failure.
\<close>

theorem detectRegime_empty:
  "detectRegime [] validators =
     Some \<lparr>currentRegime = calm, regimeConfidence = 0.5, daysInRegime = 0,
           transitionProbability = \<lparr>toCalm = 0.85, toElevated = 0.12, toHot = 0.03\<rparr>\<rparr>"
  by (simp add: detectRegime_def)

section \<open>The forecast simulator\<close>

text \<open>
  Claim C5. On an empty history \<open>generateForecast\<close> throws the error for a missing
  history, whatever the other arguments are; it returns no point.
\<close>

theorem generateForecast_empty_history:
  "generateForecast rnd now [] monthsAhead scenario executionHistory = Inl NoHistoricalData"
  by (simp add: generateForecast_def)

text \<open>
  Claim C10. When the execution history is supplied, the result of \<open>generateForecast\<close>
  does not depend on the random values or on the clock: two calls with the same
  history, horizon, scenario and execution history return the same result.
\<close>

theorem generateForecast_deterministic:
  "generateForecast rnd now history monthsAhead scenario (Some executionHistory)
     = generateForecast rnd' now' history monthsAhead scenario (Some executionHistory)"
  by (simp add: generateForecast_def)

section \<open>One simulated day\<close>

lemma forecastDay_unfold:
  "forecastDay L T sc M R y d st =
     (case getTheoreticalAPR (currentStake st) of
        None \<Rightarrow> None
      | Some c \<Rightarrow>
          Some (dayPoint L T sc M d c (forecastExecutionYield y R d (currentValidators st))
                  (currentStake st),
                \<lparr>currentStake = ForecastPoint.totalStakedETH
                   (dayPoint L T sc M d c (forecastExecutionYield y R d (currentValidators st))
                      (currentStake st)),
                 currentValidators = real_of_int \<lfloor>ForecastPoint.totalStakedETH
                   (dayPoint L T sc M d c (forecastExecutionYield y R d (currentValidators st))
                      (currentStake st)) / 32\<rfloor>,
                 currentEntryQueue = max 0 (currentEntryQueue st
                   - getChurnLimit (real_of_int \<lfloor>ForecastPoint.totalStakedETH
                       (dayPoint L T sc M d c (forecastExecutionYield y R d (currentValidators st))
                        (currentStake st)) / 32\<rfloor>) * EPOCHS_PER_DAY),
                 currentExitQueue = max 0 (currentExitQueue st
                   - getChurnLimit (real_of_int \<lfloor>ForecastPoint.totalStakedETH
                       (dayPoint L T sc M d c (forecastExecutionYield y R d (currentValidators st))
                        (currentStake st)) / 32\<rfloor>) * EPOCHS_PER_DAY)\<rparr>))"
  unfolding forecastDay_def dayPoint_def driverAttribution_def constrainedGrowth_def Let_def
  by (cases "getTheoreticalAPR (currentStake st)") simp_all


lemma forecastDay_SomeD:
  assumes "forecastDay L T sc M R y d st = Some (p, st')"
  shows "\<exists>c. getTheoreticalAPR (currentStake st) = Some c
           \<and> p = dayPoint L T sc M d c (forecastExecutionYield y R d (currentValidators st))
                   (currentStake st)
           \<and> currentStake st' = ForecastPoint.totalStakedETH p"
  using assms unfolding forecastDay_unfold
  by (cases "getTheoreticalAPR (currentStake st)") auto

lemma forecastDay_date:
  "forecastDay L T sc M R y d st = Some (p, st') \<Longrightarrow>
     date p = HistoricalDataPoint.timestamp L + int d * 86400000"
  by (drule forecastDay_SomeD) (auto simp: dayPoint_def)

lemma forecastDay_defined:
  "getTheoreticalAPR (currentStake st) = Some c \<Longrightarrow>
     \<exists>st'. forecastDay L T sc M R y d st
            = Some (dayPoint L T sc M d c (forecastExecutionYield y R d (currentValidators st))
                      (currentStake st), st')
          \<and> currentStake st' = ForecastPoint.totalStakedETH
               (dayPoint L T sc M d c (forecastExecutionYield y R d (currentValidators st))
                      (currentStake st))"
  unfolding forecastDay_unfold by simp

section \<open>The loop\<close>

lemma forecastDays_length:
  "forecastDays L T sc M R y n d st = Some ps \<Longrightarrow> length ps = n"
  by (induction n arbitrary: d st ps) (auto split: option.splits)

lemma forecastDays_invariant:
  assumes "forecastDays L T sc M R y n d st = Some ps"
    and "I d st"
    and step: "\<And>k s p s'. I k s \<Longrightarrow> forecastDay L T sc M R y k s = Some (p, s')
                 \<Longrightarrow> I (Suc k) s' \<and> Q k p"
  shows "\<forall>i<n. Q (d + i) (ps ! i)"
  using assms(1,2)
proof (induction n arbitrary: d st ps)
  case 0
  then show ?case by simp
next
  case (Suc n)
  from Suc.prems(1) obtain p st' qs where
    day: "forecastDay L T sc M R y d st = Some (p, st')" and
    rest: "forecastDays L T sc M R y n (Suc d) st' = Some qs" and
    ps: "ps = p # qs"
    by (auto split: option.splits)
  from step [OF Suc.prems(2) day] have I': "I (Suc d) st'" and Q: "Q d p" by simp_all
  from Suc.IH [OF rest I'] have tl: "\<forall>i<n. Q (Suc d + i) (qs ! i)" .
  show ?case
  proof (intro allI impI)
    fix i assume "i < Suc n"
    show "Q (d + i) (ps ! i)"
    proof (cases i)
      case 0
      then show ?thesis using Q ps by simp
    next
      case (Suc j)
      then show ?thesis using tl ps \<open>i < Suc n\<close> by simp
    qed
  qed
qed

lemma forecastDays_defined:
  assumes "I d st"
    and step: "\<And>k s. I k s \<Longrightarrow> \<exists>p s'. forecastDay L T sc M R y k s = Some (p, s') \<and> I (Suc k) s'"
  shows "\<exists>ps. forecastDays L T sc M R y n d st = Some ps"
  using assms(1)
proof (induction n arbitrary: d st)
  case 0
  then show ?case by simp
next
  case (Suc n)
  from step [OF Suc.prems] obtain p s' where
    day: "forecastDay L T sc M R y d st = Some (p, s')" and I': "I (Suc d) s'" by blast
  from Suc.IH [OF I'] obtain qs where "forecastDays L T sc M R y n (Suc d) s' = Some qs" by blast
  with day show ?case by simp
qed

lemma forecastDays_dates:
  assumes "forecastDays L T sc M R y n d st = Some ps" and "i < n"
  shows "date (ps ! i) = HistoricalDataPoint.timestamp L + int (d + i) * 86400000"
proof -
  have "\<forall>i<n. date (ps ! i) = HistoricalDataPoint.timestamp L + int (d + i) * 86400000"
    by (rule forecastDays_invariant [OF assms(1), where I = "\<lambda>k s. True"])
       (auto dest: forecastDay_date)
  then show ?thesis using assms(2) by simp
qed

section \<open>Monthly snapshots\<close>

lemma monthlySnapshots_subset: "set (monthlySnapshots ps) \<subseteq> set ps"
proof -
  have "set (monthlySnapshots ps) \<subseteq> snd ` set (enumerate 0 ps)"
    by (auto simp: monthlySnapshots_def)
  also have "\<dots> = set (map snd (enumerate 0 ps))" by (simp only: set_map)
  also have "\<dots> = set ps" by (simp only: map_snd_enumerate)
  finally show ?thesis .
qed

lemma filter_month_block:
  "filter (\<lambda>i. (i + 1) mod 30 = 0) [30 * k..<30 * k + 30] = [30 * k + 29]"
proof -
  have "[30 * k..<30 * k + 30] = map (\<lambda>j. 30 * k + j) [0..<30]"
    by (simp add: map_add_upt add.commute)
  also have "[0..<30::nat] = [0,1,2,3,4,5,6,7,8,9,10,11,12,13,14,15,16,17,18,19,20,21,22,23,24,25,26,27,28,29]"
    by (simp add: upt_rec)
  finally show ?thesis by (simp add: mod_Suc)
qed

lemma filter_month_upto:
  "filter (\<lambda>i. (i + 1) mod 30 = 0) [0..<30 * m] = map (\<lambda>k. 30 * k + 29) [0..<m]"
proof (induction m)
  case 0
  then show ?case by simp
next
  case (Suc m)
  have "30 * Suc m = 30 * m + 30" by simp
  then have split: "[0..<30 * Suc m] = [0..<30 * m] @ [30 * m..<30 * m + 30]"
    by (simp only: upt_add_eq_append [OF le0])
  have "filter (\<lambda>i. (i + 1) mod 30 = 0) [0..<30 * Suc m]
          = filter (\<lambda>i. (i + 1) mod 30 = 0) [0..<30 * m]
            @ filter (\<lambda>i. (i + 1) mod 30 = 0) [30 * m..<30 * m + 30]"
    by (simp only: split filter_append)
  also have "\<dots> = map (\<lambda>k. 30 * k + 29) [0..<m] @ [30 * m + 29]"
    by (simp only: Suc filter_month_block)
  also have "\<dots> = map (\<lambda>k. 30 * k + 29) [0..<Suc m]" by simp
  finally show ?case .
qed

lemma enumerate_nth: "enumerate 0 ps = map (\<lambda>i. (i, ps ! i)) [0..<length ps]"
  by (rule nth_equalityI) (simp_all add: nth_enumerate_eq)

lemma monthlySnapshots_nth:
  assumes "length ps = 30 * m"
  shows "monthlySnapshots ps = map (\<lambda>k. ps ! (30 * k + 29)) [0..<m]"
proof -
  have P: "\<And>i. i < 30 * m \<Longrightarrow>
      ((i + 1) mod 30 = 0 \<or> int i = int (length ps) - 1) = ((i + 1) mod 30 = 0)"
    using assms by (auto simp: algebra_simps) presburger
  have "monthlySnapshots ps
          = map (\<lambda>i. ps ! i)
              (filter (\<lambda>i. (i + 1) mod 30 = 0 \<or> int i = int (length ps) - 1) [0..<length ps])"
    unfolding monthlySnapshots_def
    by (subst enumerate_nth) (simp add: filter_map comp_def)
  also have "filter (\<lambda>i. (i + 1) mod 30 = 0 \<or> int i = int (length ps) - 1) [0..<length ps]
          = filter (\<lambda>i. (i + 1) mod 30 = 0) [0..<30 * m]"
    using P by (intro filter_cong) (simp_all add: assms)
  also have "\<dots> = map (\<lambda>k. 30 * k + 29) [0..<m]" by (rule filter_month_upto)
  finally show ?thesis by (simp add: comp_def)
qed


section \<open>From the result of generateForecast to the loop\<close>

lemma generateForecast_InrD:
  assumes "generateForecast rnd now history monthsAhead scenario executionHistory = Inr points"
  shows "history \<noteq> [] \<and>
         (\<exists>T M R y st ps.
            forecastDays (hd (sort_key (\<lambda>p. - HistoricalDataPoint.timestamp p) history))
               T scenario M R y (nat \<lfloor>monthsAhead * 30\<rfloor>) 1 st = Some ps
            \<and> points = monthlySnapshots ps)"
proof -
  have ne: "history \<noteq> []" using assms by (auto simp: generateForecast_def)
  then have "length history \<noteq> 0" by simp
  with assms show ?thesis
    unfolding generateForecast_def Let_def
    by (simp split: option.splits if_splits add: ne; blast)
qed

section \<open>Where the model stops\<close>

text \<open>
  The consensus APR is \<open>Infinity\<close> exactly for a stake strictly between 0 and 1 Gwei;
  a simulated day is defined for every other stake.
\<close>

lemma getTheoreticalAPR_None_iff:
  "getTheoreticalAPR S = None \<longleftrightarrow> 0 < S \<and> S < 1 / 1000000000"
proof (cases "1 / 1000000000 \<le> S")
  case True
  then show ?thesis using getTheoreticalAPR_eq [OF True] by simp
next
  case False
  show ?thesis
  proof (cases "S \<le> 0")
    case True
    then show ?thesis by (simp add: getTheoreticalAPR_def)
  next
    case pos: False
    have x: "0 \<le> S * 1000000000" "S * 1000000000 < 1" using False pos by simp_all
    then have "0 \<le> sqrt (S * 1000000000)" "sqrt (S * 1000000000) < 1" by simp_all
    then have "\<lfloor>sqrt (S * 1000000000)\<rfloor> = 0" by linarith
    then show ?thesis using False pos
      by (simp add: getTheoreticalAPR_def getBaseRewardPerEpoch_def Let_def)
  qed
qed

lemma forecastDay_None_iff:
  "forecastDay L T sc M R y d st = None
     \<longleftrightarrow> 0 < currentStake st \<and> currentStake st < 1 / 1000000000"
  unfolding forecastDay_unfold getTheoreticalAPR_None_iff [symmetric]
  by (simp split: option.split)

section \<open>The execution yield forecast\<close>

lemma MEAN_REVERSION_target_bounds:
  "5 / 10000 \<le> MEAN_REVERSION_target r" "MEAN_REVERSION_target r \<le> 4 / 1000"
  by (cases r; simp)+

lemma MEAN_REVERSION_halfLife_pos: "0 < MEAN_REVERSION_halfLife r"
  by (cases r) simp_all

lemma forecastExecutionYield_validators:
  "forecastExecutionYield y R d v = forecastExecutionYield y R d v'"
  by (simp add: forecastExecutionYield_def)

lemma forecastExecutionYield_regime:
  "regime (forecastExecutionYield y R d v) = regime (forecastExecutionYield y' R d v')"
  by (simp add: forecastExecutionYield_def Let_def split: prod.splits)

lemma forecastExecutionYield_apr:
  "annualizedAPR (forecastExecutionYield y R d v)
     = ((y * (0.5 powr (real d / MEAN_REVERSION_halfLife R))
         + MEAN_REVERSION_target R * (1 - 0.5 powr (real d / MEAN_REVERSION_halfLife R))) * 0.7
        + MEAN_REVERSION_target (regime (forecastExecutionYield y R d v)) * 0.3) * 365 / 32 * 100"
  by (simp add: forecastExecutionYield_def Let_def split: prod.splits)

lemma forecastExecutionYield_components:
  "priorityFees (ExecutionYieldForecast.components (forecastExecutionYield y R d v))
     = 0.4 * annualizedAPR (forecastExecutionYield y R d v)"
  "mevRewards (ExecutionYieldForecast.components (forecastExecutionYield y R d v))
     = 0.6 * annualizedAPR (forecastExecutionYield y R d v)"
  by (simp_all add: forecastExecutionYield_def Let_def split: prod.splits)

lemma decay_bounds:
  "0 < (0.5::real) powr (real d / MEAN_REVERSION_halfLife R)"
  "(0.5::real) powr (real d / MEAN_REVERSION_halfLife R) \<le> 1"
proof -
  show "0 < (0.5::real) powr (real d / MEAN_REVERSION_halfLife R)" by simp
  have "0 \<le> real d / MEAN_REVERSION_halfLife R"
    using MEAN_REVERSION_halfLife_pos [of R] by simp
  then show "(0.5::real) powr (real d / MEAN_REVERSION_halfLife R) \<le> 1"
    by (intro powr_le1) simp_all
qed

lemma forecastExecutionYield_lower:
  assumes "0 \<le> y"
  shows "17109375 / 100000000 \<le> annualizedAPR (forecastExecutionYield y R d v)"
proof -
  let ?q = "(0.5::real) powr (real d / MEAN_REVERSION_halfLife R)"
  let ?t = "MEAN_REVERSION_target (regime (forecastExecutionYield y R d v))"
  have q: "0 < ?q" "?q \<le> 1" by (rule decay_bounds)+
  have a: "0 \<le> y * ?q" using assms q by simp
  have b: "0 \<le> MEAN_REVERSION_target R * (1 - ?q)"
    using q MEAN_REVERSION_target_bounds(1) [of R] by simp
  have c: "5 / 10000 \<le> ?t" by (rule MEAN_REVERSION_target_bounds)
  define A where "A = y * ?q + MEAN_REVERSION_target R * (1 - ?q)"
  have A: "0 \<le> A" using a b by (simp add: A_def)
  have "17109375 / 100000000 \<le> (A * 0.7 + ?t * 0.3) * 365 / 32 * 100"
    using A c by simp
  then show ?thesis by (simp only: forecastExecutionYield_apr A_def)
qed

section \<open>The point of a day and its driver attribution\<close>

lemma dayPoint_fields:
  "date (dayPoint L T sc M d c ef s) = HistoricalDataPoint.timestamp L + int d * 86400000"
  "ForecastPoint.totalStakedETH (dayPoint L T sc M d c ef s)
     = max 0 (s + constrainedGrowth T sc M (c + annualizedAPR ef * mevMultiplier sc))"
  "forecastAPR (dayPoint L T sc M d c ef s) = c + annualizedAPR ef * mevMultiplier sc"
  "drivers (dayPoint L T sc M d c ef s) = driverAttribution c ef sc"
  by (simp_all add: dayPoint_def)

lemma driverAttribution_fields:
  "consensusAPR (driverAttribution c ef sc) = c"
  "executionAPR (driverAttribution c ef sc) = annualizedAPR ef * mevMultiplier sc"
  "totalAPR (driverAttribution c ef sc) = c + annualizedAPR ef * mevMultiplier sc"
  by (simp_all add: driverAttribution_def)

lemma driverAttribution_shares:
  assumes "totalAPR (driverAttribution c ef sc) \<noteq> 0"
  shows "\<exists>a b. consensusPct (driverAttribution c ef sc) = Some a
               \<and> executionPct (driverAttribution c ef sc) = Some b \<and> a + b = 100"
proof -
  have t: "c + annualizedAPR ef * mevMultiplier sc \<noteq> 0"
    using assms by (simp add: driverAttribution_def)
  define x where "x = annualizedAPR ef * mevMultiplier sc"
  have "c / (c + x) * 100 + x / (c + x) * 100 = (c + x) / (c + x) * 100"
    by (simp only: add_divide_distrib distrib_right)
  also have "\<dots> = 100" using t by (simp only: x_def divide_self) simp
  finally have sum: "c / (c + x) * 100 + x / (c + x) * 100 = 100" .
  have cp: "consensusPct (driverAttribution c ef sc) = Some (c / (c + x) * 100)"
    using t by (simp add: driverAttribution_def x_def)
  have ep: "executionPct (driverAttribution c ef sc) = Some (x / (c + x) * 100)"
    using t by (simp add: driverAttribution_def x_def)
  show ?thesis using cp ep sum by blast
qed

lemma forecastDays_points:
  assumes "forecastDays L T sc M R y n d st = Some ps" and "p \<in> set ps"
  shows "\<exists>k c s. p = dayPoint L T sc M k c (forecastExecutionYield y R k 0) s"
proof -
  have "\<forall>i<n. \<exists>c s. ps ! i = dayPoint L T sc M (d + i) c (forecastExecutionYield y R (d + i) 0) s"
  proof (rule forecastDays_invariant [OF assms(1), where I = "\<lambda>k s. True"])
    fix k s q s'
    assume "forecastDay L T sc M R y k s = Some (q, s')"
    from forecastDay_SomeD [OF this]
    show "True \<and> (\<exists>c s. q = dayPoint L T sc M k c (forecastExecutionYield y R k 0) s)"
      using forecastExecutionYield_validators [of y R k "currentValidators s" 0] by auto
  qed simp
  moreover from assms have "\<exists>i<n. p = ps ! i"
    by (metis forecastDays_length in_set_conv_nth)
  ultimately show ?thesis by blast
qed

lemma generateForecast_points:
  assumes "generateForecast rnd now history monthsAhead scenario executionHistory = Inr points"
    and "p \<in> set points"
  shows "\<exists>L T M R y k c s. p = dayPoint L T scenario M k c (forecastExecutionYield y R k 0) s"
proof -
  from generateForecast_InrD [OF assms(1)] obtain T M R y st ps where
    run: "forecastDays (hd (sort_key (\<lambda>p. - HistoricalDataPoint.timestamp p) history))
            T scenario M R y (nat \<lfloor>monthsAhead * 30\<rfloor>) 1 st = Some ps"
    and points: "points = monthlySnapshots ps" by blast
  from assms(2) points have "p \<in> set ps" using monthlySnapshots_subset by blast
  from forecastDays_points [OF run this] show ?thesis by blast
qed

text \<open>
  Claim C8, as amended. Take a run of \<open>generateForecast\<close> in which no division by zero
  occurs, for any history, horizon, scenario and execution history: the validator count
  of the latest state is not zero when the execution history in use is not empty, and
  no simulated stake lies strictly between 0 and 1 Gwei; these are the runs with a result
  \<open>Inr\<close>. In every point of the result, whenever \<open>totalAPR\<close> is not zero the two
  shares \<open>consensusPct\<close> and \<open>executionPct\<close> are numbers and add up to 100 (exactly, in
  real arithmetic).
\<close>

theorem drivers_consensus_execution_sum:
  assumes "generateForecast rnd now history monthsAhead scenario executionHistory = Inr points"
    and "p \<in> set points"
    and "totalAPR (drivers p) \<noteq> 0"
  shows "\<exists>a b. consensusPct (drivers p) = Some a \<and> executionPct (drivers p) = Some b
               \<and> a + b = 100"
proof -
  from generateForecast_points [OF assms(1,2)] obtain L T M R y k c s where
    p: "p = dayPoint L T scenario M k c (forecastExecutionYield y R k 0) s" by blast
  then have d: "drivers p = driverAttribution c (forecastExecutionYield y R k 0) scenario"
    by (simp add: dayPoint_fields)
  show ?thesis using assms(3) unfolding d by (rule driverAttribution_shares)
qed

section \<open>Monthly points\<close>

lemma hd_sort_key_descending:
  assumes "history \<noteq> []"
  shows "HistoricalDataPoint.timestamp (hd (sort_key (\<lambda>p. - HistoricalDataPoint.timestamp p) history))
           = Max (HistoricalDataPoint.timestamp ` set history)"
proof -
  let ?f = "\<lambda>p. - HistoricalDataPoint.timestamp p"
  let ?s = "sort_key ?f history"
  have ne: "?s \<noteq> []" using assms by (metis length_0_conv length_sort)
  have mem: "hd ?s \<in> set history" using ne by (metis hd_in_set set_sort)
  have srt: "sorted (map ?f ?s)" by (rule sorted_sort_key)
  have "\<forall>x \<in> set history. HistoricalDataPoint.timestamp x \<le> HistoricalDataPoint.timestamp (hd ?s)"
  proof
    fix x assume "x \<in> set history"
    then have "x \<in> set ?s" by simp
    then have "?f (hd ?s) \<le> ?f x"
      using srt ne by (cases ?s) (auto simp del: sort_key_simps)
    then show "HistoricalDataPoint.timestamp x \<le> HistoricalDataPoint.timestamp (hd ?s)" by simp
  qed
  with mem show ?thesis
    by (intro Max_eqI [symmetric]) auto
qed

text \<open>
  Claim C6. For a whole number \<open>m \<ge> 1\<close> of months, a run of \<open>generateForecast\<close> that
  returns points returns exactly \<open>m\<close> of them: the \<open>k\<close>-th is the point of simulated day
  \<open>30 * k\<close>, dated \<open>30 * k\<close> days after the latest timestamp of the history, for
  \<open>k = 1, ..., m\<close>; the final day \<open>30 * m\<close> is among them. The dates increase strictly.
\<close>

theorem generateForecast_monthly_points:
  assumes "generateForecast rnd now history (real m) scenario executionHistory = Inr points"
    and "1 \<le> m"
  shows "length points = m
         \<and> map date points
             = map (\<lambda>k. Max (HistoricalDataPoint.timestamp ` set history)
                         + int (30 * k) * 86400000) [1..<Suc m]
         \<and> sorted_wrt (<) (map date points)"
proof -
  let ?L = "hd (sort_key (\<lambda>p. - HistoricalDataPoint.timestamp p) history)"
  let ?ts = "Max (HistoricalDataPoint.timestamp ` set history)"
  from generateForecast_InrD [OF assms(1)] obtain T M R y st ps where
    ne: "history \<noteq> []" and
    run: "forecastDays ?L T scenario M R y (nat \<lfloor>real m * 30\<rfloor>) 1 st = Some ps"
    and points: "points = monthlySnapshots ps" by blast
  have n: "nat \<lfloor>real m * 30\<rfloor> = 30 * m"
  proof -
    have "real m * 30 = real (30 * m)" by simp
    then show ?thesis by (simp only: floor_of_nat nat_int)
  qed
  have len: "length ps = 30 * m" using forecastDays_length [OF run] n by simp
  have snap: "points = map (\<lambda>k. ps ! (30 * k + 29)) [0..<m]"
    using points monthlySnapshots_nth [OF len] by simp
  have ts: "HistoricalDataPoint.timestamp ?L = ?ts" using ne by (rule hd_sort_key_descending)
  have dates: "\<And>i. i < 30 * m \<Longrightarrow> date (ps ! i) = ?ts + int (1 + i) * 86400000"
    using forecastDays_dates [OF run] n ts by simp
  have 1: "length points = m" using snap by simp
  have 2: "map date points = map (\<lambda>k. ?ts + int (30 * k) * 86400000) [1..<Suc m]"
  proof (rule nth_equalityI)
    show "length (map date points) = length (map (\<lambda>k. ?ts + int (30 * k) * 86400000) [1..<Suc m])"
      using 1 by simp
  next
    fix i assume "i < length (map date points)"
    then have i: "i < m" using 1 by simp
    then have "30 * i + 29 < 30 * m" by simp
    have u: "[1..<Suc m] ! i = 1 + i" using i by (simp del: upt_Suc)
    have li: "i < length [1..<Suc m]" using i by simp
    have "map (\<lambda>k. ?ts + int (30 * k) * 86400000) [1..<Suc m] ! i
            = ?ts + int (30 * ([1..<Suc m] ! i)) * 86400000"
      using li by (rule nth_map)
    then have "map (\<lambda>k. ?ts + int (30 * k) * 86400000) [1..<Suc m] ! i
            = ?ts + int (30 * (1 + i)) * 86400000"
      by (simp only: u)
    moreover have "map date points ! i = date (ps ! (30 * i + 29))"
      using i by (simp add: snap)
    moreover have "int (1 + (30 * i + 29)) = int (30 * (1 + i))" by simp
    ultimately show "map date points ! i
        = map (\<lambda>k. ?ts + int (30 * k) * 86400000) [1..<Suc m] ! i"
      using dates [OF \<open>30 * i + 29 < 30 * m\<close>] by (simp only:)
  qed
  have "sorted_wrt (\<lambda>a b. ?ts + int (30 * a) * 86400000 < ?ts + int (30 * b) * 86400000)
          [1..<Suc m]"
    by (rule sorted_wrt_mono_rel [OF _ sorted_wrt_upt]) simp
  then have 3: "sorted_wrt (<) (map date points)"
    by (simp only: 2 sorted_wrt_map)
  show ?thesis using 1 2 3 by blast
qed

section \<open>Runs without growth\<close>

lemma getTheoreticalAPR_nonneg:
  assumes "getTheoreticalAPR S = Some c"
  shows "0 \<le> c"
proof (cases "S \<le> 0")
  case True
  then show ?thesis using assms by (simp add: getTheoreticalAPR_def)
next
  case False
  then have S: "0 < S" by simp
  show ?thesis
  proof (cases "\<lfloor>sqrt (S * 1000000000)\<rfloor> = 0")
    case True
    then show ?thesis using assms S
      by (simp add: getTheoreticalAPR_def getBaseRewardPerEpoch_def Let_def)
  next
    case False
    have "0 \<le> sqrt (S * 1000000000)" using S by simp
    then have "0 \<le> \<lfloor>sqrt (S * 1000000000)\<rfloor>" by linarith
    with False have r: "0 < real_of_int \<lfloor>sqrt (S * 1000000000)\<rfloor>" by linarith
    have "\<not> S * 1000000000 < 0" using S by simp
    with False S assms
    have "c = 2103840000 / real_of_int \<lfloor>sqrt (S * 1000000000)\<rfloor>"
      by (simp add: getTheoreticalAPR_def getBaseRewardPerEpoch_def Let_def
          BASE_REWARD_FACTOR_def BASE_REWARDS_PER_EPOCH_def EPOCHS_PER_YEAR_eq)
    then show ?thesis using r by simp
  qed
qed

lemma getMaxDailyStakeChange_lower: "28800 \<le> getMaxDailyStakeChange v"
proof -
  have "4 \<le> getChurnLimit v" by (simp add: getChurnLimit_def MIN_PER_EPOCH_CHURN_LIMIT_def)
  then show ?thesis by (simp add: getMaxDailyStakeChange_def Let_def EPOCHS_PER_DAY_eq)
qed

lemma constrainedGrowth_zero:
  assumes "dailyGrowthRate T + netFlowBias sc * M * 0.1 = 0" and "0 \<le> M"
  shows "constrainedGrowth T sc M a = 0"
  using assms by (simp add: constrainedGrowth_def applyAPRFeedback_def Let_def)

lemma zero_growth_run:
  assumes b: "dailyGrowthRate T + netFlowBias sc * M * 0.1 = 0" and M: "0 \<le> M"
    and c: "getTheoreticalAPR S = Some c" and S: "0 \<le> S" and st: "currentStake st = S"
  shows "\<exists>ps. forecastDays L T sc M R y n d st = Some ps
           \<and> (\<forall>i<n. ps ! i = dayPoint L T sc M (d + i) c (forecastExecutionYield y R (d + i) 0) S)"
proof -
  have stake: "\<And>k v. ForecastPoint.totalStakedETH
                   (dayPoint L T sc M k c (forecastExecutionYield y R k v) S) = S"
    using S by (simp add: dayPoint_fields constrainedGrowth_zero [OF b M])
  have "\<exists>ps. forecastDays L T sc M R y n d st = Some ps"
  proof (rule forecastDays_defined [where I = "\<lambda>k s. currentStake s = S"])
    show "currentStake st = S" by (rule st)
  next
    fix k and s :: SimState assume s: "currentStake s = S"
    from forecastDay_defined [of s c, OF c [folded s]] s stake
    show "\<exists>p s'. forecastDay L T sc M R y k s = Some (p, s') \<and> currentStake s' = S"
      by fastforce
  qed
  then obtain ps where run: "forecastDays L T sc M R y n d st = Some ps" by blast
  have "\<forall>i<n. ps ! i = dayPoint L T sc M (d + i) c (forecastExecutionYield y R (d + i) 0) S"
  proof (rule forecastDays_invariant [OF run, where I = "\<lambda>k s. currentStake s = S"])
    show "currentStake st = S" by (rule st)
  next
    fix k p s' and s :: SimState
    assume s: "currentStake s = S" and day: "forecastDay L T sc M R y k s = Some (p, s')"
    from forecastDay_SomeD [OF day] c s
    have p: "p = dayPoint L T sc M k c (forecastExecutionYield y R k (currentValidators s)) S"
      and s': "currentStake s' = ForecastPoint.totalStakedETH p" by auto
    from p s' stake forecastExecutionYield_validators [of y R k "currentValidators s" 0]
    show "currentStake s' = S \<and> p = dayPoint L T sc M k c (forecastExecutionYield y R k 0) S"
      by simp
  qed
  with run show ?thesis by blast
qed

section \<open>A supplied execution history\<close>

lemma detectRegime_currentRegime:
  assumes "eh \<noteq> []" and "v \<noteq> 0"
  shows "\<exists>rd. detectRegime eh v = Some rd
           \<and> currentRegime rd = classifyYield
                (mean (map (\<lambda>d. (priorityFeesETH d + mevRewardsETH d) / v)
                        (take 7 (sortDescending eh))))"
  using assms
  by (simp add: detectRegime_def Let_def classifyYield_def split: prod.splits)

lemma generateForecast_supplied:
  assumes "history \<noteq> []"
    and "L = hd (sort_key (\<lambda>p. - HistoricalDataPoint.timestamp p) history)"
    and "activeValidators L \<noteq> 0"
  shows "generateForecast rnd now history monthsAhead sc (Some eh) =
     (case forecastDays L (calculateStakingTrend history) sc
             (getMaxDailyStakeChange (activeValidators L))
             (case feeRegimeBias sc of
                current \<Rightarrow> (if eh = [] then calm
                             else classifyYield
                               (mean (map (\<lambda>d. (priorityFeesETH d + mevRewardsETH d)
                                                / activeValidators L)
                                       (take 7 (sortDescending eh)))))
              | forced r \<Rightarrow> r)
             (if eh = [] then 0.001
              else mean (map (\<lambda>d. (priorityFeesETH d + mevRewardsETH d) / activeValidators L)
                           (take 7 eh)))
             (nat \<lfloor>monthsAhead * 30\<rfloor>) 1
             \<lparr>currentStake = HistoricalDataPoint.totalStakedETH L,
              currentValidators = activeValidators L,
              currentEntryQueue = entryQueueLength L,
              currentExitQueue = exitQueueLength L\<rparr> of
        None \<Rightarrow> Inl NotFinite
      | Some ps \<Rightarrow> Inr (monthlySnapshots ps))"
proof (cases "eh = []")
  case True
  then show ?thesis using assms
    by (simp add: generateForecast_def Let_def detectRegime_def split: FeeRegimeBias.splits)
next
  case False
  from detectRegime_currentRegime [OF False assms(3)] obtain rd where
    rd: "detectRegime eh (activeValidators L) = Some rd"
    and reg: "currentRegime rd = classifyYield
                (mean (map (\<lambda>d. (priorityFeesETH d + mevRewardsETH d) / activeValidators L)
                        (take 7 (sortDescending eh))))" by blast
  have t: "take 7 eh \<noteq> []" using False by (cases eh) simp_all
  show ?thesis using assms(1,3) False t rd reg
    unfolding generateForecast_def Let_def assms(2) [symmetric]
    by (simp split: FeeRegimeBias.splits)
qed


section \<open>The example state\<close>

lemma example_consensus: "getTheoreticalAPR 34500000 = Some (2103840000 / 185741756)"
proof -
  have "\<lfloor>sqrt (34500000 * 1000000000)\<rfloor> = 185741756" by (rule floor_sqrt_eqI) simp_all
  then show ?thesis using getTheoreticalAPR_eq [of 34500000] by simp
qed

lemma example_baseline:
  fixes eh :: "ExecutionDataPoint list" and monthsAhead :: real
  defines "R \<equiv> (case feeRegimeBias DEFAULT_SCENARIO of
                   current \<Rightarrow> (if eh = [] then calm
                                else classifyYield
                                  (mean (map (\<lambda>d. (priorityFeesETH d + mevRewardsETH d)
                                                   / activeValidators exampleState)
                                          (take 7 (sortDescending eh)))))
                 | forced r \<Rightarrow> r)"
    and "y \<equiv> (if eh = [] then 0.001
               else mean (map (\<lambda>d. (priorityFeesETH d + mevRewardsETH d)
                                     / activeValidators exampleState) (take 7 eh)))"
  shows "\<exists>ps. length ps = nat \<lfloor>monthsAhead * 30\<rfloor>
           \<and> generateForecast rnd now [exampleState] monthsAhead DEFAULT_SCENARIO (Some eh)
               = Inr (monthlySnapshots ps)
           \<and> (\<forall>i<nat \<lfloor>monthsAhead * 30\<rfloor>.
                 ForecastPoint.totalStakedETH (ps ! i) = 34500000
                 \<and> forecastAPR (ps ! i)
                     = 2103840000 / 185741756
                       + annualizedAPR (forecastExecutionYield y R (1 + i) 0)
                 \<and> totalAPR (drivers (ps ! i)) = forecastAPR (ps ! i))"
proof -
  let ?T = "calculateStakingTrend [exampleState]"
  let ?M = "getMaxDailyStakeChange (activeValidators exampleState)"
  let ?st = "\<lparr>currentStake = HistoricalDataPoint.totalStakedETH exampleState,
              currentValidators = activeValidators exampleState,
              currentEntryQueue = entryQueueLength exampleState,
              currentExitQueue = exitQueueLength exampleState\<rparr>"
  have T: "dailyGrowthRate ?T + netFlowBias DEFAULT_SCENARIO * ?M * 0.1 = 0"
    by (simp add: calculateStakingTrend_def DEFAULT_SCENARIO_def)
  have M: "0 \<le> ?M" using getMaxDailyStakeChange_lower [of "activeValidators exampleState"] by simp
  have st: "currentStake ?st = 34500000" by (simp add: exampleState_def)
  from zero_growth_run [OF T M example_consensus _ st, of exampleState R y
      "nat \<lfloor>monthsAhead * 30\<rfloor>" 1]
  obtain ps where run: "forecastDays exampleState ?T DEFAULT_SCENARIO ?M R y
                          (nat \<lfloor>monthsAhead * 30\<rfloor>) 1 ?st = Some ps"
    and pts: "\<forall>i<nat \<lfloor>monthsAhead * 30\<rfloor>.
        ps ! i = dayPoint exampleState ?T DEFAULT_SCENARIO ?M (1 + i) (2103840000 / 185741756)
                   (forecastExecutionYield y R (1 + i) 0) 34500000"
    by auto
  have ne: "[exampleState] \<noteq> []" by simp
  have L: "exampleState = hd (sort_key (\<lambda>p. - HistoricalDataPoint.timestamp p) [exampleState])"
    by simp
  have v: "activeValidators exampleState \<noteq> 0" by (simp add: exampleState_def)
  have g: "generateForecast rnd now [exampleState] monthsAhead DEFAULT_SCENARIO (Some eh)
             = Inr (monthlySnapshots ps)"
    unfolding generateForecast_supplied [OF ne L v] R_def [symmetric] y_def [symmetric]
    by (simp only: run option.case)
  have z: "constrainedGrowth ?T DEFAULT_SCENARIO ?M a = 0" for a
    by (rule constrainedGrowth_zero [OF T M])
  have mm: "mevMultiplier DEFAULT_SCENARIO = 1" by (simp add: DEFAULT_SCENARIO_def)
  have "\<forall>i<nat \<lfloor>monthsAhead * 30\<rfloor>.
          ForecastPoint.totalStakedETH (ps ! i) = 34500000
          \<and> forecastAPR (ps ! i)
              = 2103840000 / 185741756 + annualizedAPR (forecastExecutionYield y R (1 + i) 0)
          \<and> totalAPR (drivers (ps ! i)) = forecastAPR (ps ! i)"
    using pts mm by (simp add: dayPoint_fields driverAttribution_fields z)
  with g forecastDays_length [OF run] show ?thesis by blast
qed

text \<open>
  The hypotheses of claim C6 hold for the example state and six months: the run
  returns six points.
\<close>

theorem generateForecast_monthly_points_witness:
  "\<exists>points. generateForecast (\<lambda>k. 0) 0 [exampleState] (real 6) DEFAULT_SCENARIO (Some [])
               = Inr points
            \<and> length points = 6
            \<and> map date points
                = map (\<lambda>k. Max (HistoricalDataPoint.timestamp ` set [exampleState])
                            + int (30 * k) * 86400000) [1..<Suc 6]
            \<and> sorted_wrt (<) (map date points)"
proof -
  from example_baseline [where monthsAhead = "real 6" and eh = "[]" and rnd = "\<lambda>k. 0" and now = 0] obtain points where
    g: "generateForecast (\<lambda>k. 0) 0 [exampleState] (real 6) DEFAULT_SCENARIO (Some []) = Inr points"
    by blast
  have m: "1 \<le> (6::nat)" by simp
  from generateForecast_monthly_points [OF g m] g show ?thesis by blast
qed

text \<open>
  The hypotheses of the amended claim C8 hold for the example state and one month: the
  run returns a point whose total APR is not zero.
\<close>

theorem drivers_consensus_execution_sum_witness:
  "\<exists>points p. generateForecast (\<lambda>k. 0) 0 [exampleState] 1 DEFAULT_SCENARIO (Some []) = Inr points
      \<and> p \<in> set points \<and> totalAPR (drivers p) \<noteq> 0
      \<and> (\<exists>a b. consensusPct (drivers p) = Some a \<and> executionPct (drivers p) = Some b
                 \<and> a + b = 100)"
proof -
  from example_baseline [where monthsAhead = 1 and eh = "[]" and rnd = "\<lambda>k. 0" and now = 0] obtain ps where
    len: "length ps = 30 * 1" and
    g: "generateForecast (\<lambda>k. 0) 0 [exampleState] 1 DEFAULT_SCENARIO (Some [])
          = Inr (monthlySnapshots ps)" and
    pt: "forecastAPR (ps ! 29)
           = 2103840000 / 185741756 + annualizedAPR (forecastExecutionYield 0.001 calm (1 + 29) 0)"
        "totalAPR (drivers (ps ! 29)) = forecastAPR (ps ! 29)"
    by (auto simp: DEFAULT_SCENARIO_def)
  have snap: "monthlySnapshots ps = [ps ! 29]"
    using monthlySnapshots_nth [OF len] by simp
  have mem: "ps ! 29 \<in> set (monthlySnapshots ps)" by (simp add: snap)
  have "17109375 / 100000000 \<le> annualizedAPR (forecastExecutionYield 0.001 calm (1 + 29) 0)"
    by (rule forecastExecutionYield_lower) simp
  then have nz: "totalAPR (drivers (ps ! 29)) \<noteq> 0" using pt by simp
  from drivers_consensus_execution_sum [OF g mem nz] g mem nz show ?thesis by blast
qed


text \<open>
  Claim C8 as stated fails. The history that consists of the example state with a
  validator count of zero is not empty, and neither is the execution history
  \<open>latestFirst\<close>. \<open>detectRegime\<close> and the current execution yield divide the daily
  amounts by the validator count: the program's yields are \<open>Infinity\<close>, and so are its
  execution APR and its \<open>totalAPR\<close>, which is therefore not zero, while \<open>executionPct\<close>
  is \<open>Infinity / Infinity\<close>, that is \<open>NaN\<close>. No point of the result has shares that
  add up to 100; in the model the run is \<open>NotFinite\<close>.
\<close>

theorem zero_validators_not_finite:
  "[exampleState\<lparr>activeValidators := 0\<rparr>] \<noteq> []
   \<and> latestFirst \<noteq> []
   \<and> activeValidators (hd (sort_key (\<lambda>p. - HistoricalDataPoint.timestamp p)
                              [exampleState\<lparr>activeValidators := 0\<rparr>])) = 0
   \<and> detectRegime latestFirst 0 = None
   \<and> generateForecast noRandom 0 [exampleState\<lparr>activeValidators := 0\<rparr>] 1 DEFAULT_SCENARIO
        (Some latestFirst) = Inl NotFinite"
  by (simp add: generateForecast_def detectRegime_def latestFirst_def)


section \<open>The order of the execution history\<close>

lemma forecastExecutionYield_strict_mono:
  assumes "y < y'"
  shows "annualizedAPR (forecastExecutionYield y R d v)
           < annualizedAPR (forecastExecutionYield y' R d v')"
proof -
  let ?q = "(0.5::real) powr (real d / MEAN_REVERSION_halfLife R)"
  have q: "0 < ?q" by simp
  have r: "regime (forecastExecutionYield y R d v) = regime (forecastExecutionYield y' R d v')"
    by (rule forecastExecutionYield_regime)
  have "y * ?q < y' * ?q" using assms q by (rule mult_strict_right_mono)
  then show ?thesis
    unfolding forecastExecutionYield_apr [of y] forecastExecutionYield_apr [of y'] r by simp
qed

lemma latestFirst_yield:
  "mean (map (\<lambda>d. (priorityFeesETH d + mevRewardsETH d) / activeValidators exampleState)
          (take 7 latestFirst)) = 500 / 1078125"
  "mean (map (\<lambda>d. (priorityFeesETH d + mevRewardsETH d) / activeValidators exampleState)
          (take 7 (rev latestFirst))) = 3800 / (7 * 1078125)"
  by (simp_all add: latestFirst_def executionDay_def exampleState_def mean_def)

lemma latestFirst_sorted:
  "sortDescending latestFirst = latestFirst"
  "sortDescending (rev latestFirst) = latestFirst"
  by (simp_all add: latestFirst_def executionDay_def sortDescending_def)

lemma latestFirst_regime:
  "classifyYield (mean (map (\<lambda>d. (priorityFeesETH d + mevRewardsETH d)
                                    / activeValidators exampleState)
                          (take 7 latestFirst))) = calm"
  unfolding latestFirst_yield
  by (simp add: classifyYield_def REGIME_THRESHOLDS_calm_max_def)

text \<open>
  Claim C2 fails on the code. \<open>detectRegime\<close> sorts its copy of the execution history,
  but \<open>generateForecast\<close> takes the current execution yield from the first seven
  entries of the list as the caller ordered it. For the example state, one month and
  the default scenario, the execution history \<open>latestFirst\<close> and its reversal (the
  same eight records, oldest first) give two results with different forecast APR.
\<close>

theorem generateForecast_depends_on_order:
  "\<exists>p q. generateForecast rnd now [exampleState] 1 DEFAULT_SCENARIO (Some latestFirst) = Inr [p]
         \<and> generateForecast rnd now [exampleState] 1 DEFAULT_SCENARIO (Some (rev latestFirst))
             = Inr [q]
         \<and> forecastAPR p < forecastAPR q"
proof -
  have ne: "latestFirst \<noteq> []" "rev latestFirst \<noteq> []" by (simp_all add: latestFirst_def)
  have cur: "feeRegimeBias DEFAULT_SCENARIO = current" by (simp add: DEFAULT_SCENARIO_def)
  have R1: "(case feeRegimeBias DEFAULT_SCENARIO of
               current \<Rightarrow> (if latestFirst = [] then calm
                            else classifyYield
                              (mean (map (\<lambda>d. (priorityFeesETH d + mevRewardsETH d)
                                               / activeValidators exampleState)
                                      (take 7 (sortDescending latestFirst)))))
             | forced r \<Rightarrow> r) = calm"
    by (simp only: cur ne latestFirst_sorted latestFirst_regime FeeRegimeBias.case if_False)
  have R2: "(case feeRegimeBias DEFAULT_SCENARIO of
               current \<Rightarrow> (if rev latestFirst = [] then calm
                            else classifyYield
                              (mean (map (\<lambda>d. (priorityFeesETH d + mevRewardsETH d)
                                               / activeValidators exampleState)
                                      (take 7 (sortDescending (rev latestFirst))))))
             | forced r \<Rightarrow> r) = calm"
    by (simp only: cur ne latestFirst_sorted latestFirst_regime FeeRegimeBias.case if_False)
  have y1: "(if latestFirst = [] then 0.001
             else mean (map (\<lambda>d. (priorityFeesETH d + mevRewardsETH d)
                                   / activeValidators exampleState) (take 7 latestFirst)))
            = 500 / 1078125"
    by (simp only: ne latestFirst_yield if_False)
  have y2: "(if rev latestFirst = [] then 0.001
             else mean (map (\<lambda>d. (priorityFeesETH d + mevRewardsETH d)
                                   / activeValidators exampleState) (take 7 (rev latestFirst))))
            = 3800 / (7 * 1078125)"
    by (simp only: ne latestFirst_yield if_False)
  have n: "nat \<lfloor>(1::real) * 30\<rfloor> = 30" by simp
  from example_baseline [where monthsAhead = 1 and eh = latestFirst and rnd = rnd and now = now,
      unfolded R1 y1 n]
  obtain ps where
    len: "length ps = 30" and
    g: "generateForecast rnd now [exampleState] 1 DEFAULT_SCENARIO (Some latestFirst)
          = Inr (monthlySnapshots ps)" and
    pts: "\<forall>i<30. ForecastPoint.totalStakedETH (ps ! i) = 34500000
           \<and> forecastAPR (ps ! i)
               = 2103840000 / 185741756
                 + annualizedAPR (forecastExecutionYield (500 / 1078125) calm (1 + i) 0)
           \<and> totalAPR (drivers (ps ! i)) = forecastAPR (ps ! i)"
    by blast
  from example_baseline [where monthsAhead = 1 and eh = "rev latestFirst" and rnd = rnd
      and now = now, unfolded R2 y2 n]
  obtain qs where
    len': "length qs = 30" and
    g': "generateForecast rnd now [exampleState] 1 DEFAULT_SCENARIO (Some (rev latestFirst))
          = Inr (monthlySnapshots qs)" and
    pts': "\<forall>i<30. ForecastPoint.totalStakedETH (qs ! i) = 34500000
           \<and> forecastAPR (qs ! i)
               = 2103840000 / 185741756
                 + annualizedAPR (forecastExecutionYield (3800 / (7 * 1078125)) calm (1 + i) 0)
           \<and> totalAPR (drivers (qs ! i)) = forecastAPR (qs ! i)"
    by blast
  have snap: "monthlySnapshots ps = [ps ! 29]" "monthlySnapshots qs = [qs ! 29]"
    using monthlySnapshots_nth [of ps 1] monthlySnapshots_nth [of qs 1] len len' by simp_all
  have "annualizedAPR (forecastExecutionYield (500 / 1078125) calm (1 + 29) 0)
          < annualizedAPR (forecastExecutionYield (3800 / (7 * 1078125)) calm (1 + 29) 0)"
    by (rule forecastExecutionYield_strict_mono) simp
  moreover have "forecastAPR (ps ! 29) = 2103840000 / 185741756
                 + annualizedAPR (forecastExecutionYield (500 / 1078125) calm (1 + 29) 0)"
    using pts by simp
  moreover have "forecastAPR (qs ! 29) = 2103840000 / 185741756
                 + annualizedAPR (forecastExecutionYield (3800 / (7 * 1078125)) calm (1 + 29) 0)"
    using pts' by simp
  ultimately have "forecastAPR (ps ! 29) < forecastAPR (qs ! 29)" by simp
  with g g' snap show ?thesis by auto
qed

section \<open>Bounds on the daily growth\<close>

lemma getTheoreticalAPR_antimono:
  assumes "1 / 1000000000 \<le> S1" and "S1 \<le> S2"
    and "getTheoreticalAPR S1 = Some a1" and "getTheoreticalAPR S2 = Some a2"
  shows "a2 \<le> a1"
proof -
  let ?r1 = "\<lfloor>sqrt (S1 * 1000000000)\<rfloor>" and ?r2 = "\<lfloor>sqrt (S2 * 1000000000)\<rfloor>"
  have "1 \<le> S1 * 1000000000" using assms(1) by (simp add: field_simps)
  then have p1: "1 \<le> ?r1" by (rule floor_sqrt_pos)
  have le: "?r1 \<le> ?r2" using assms(2) by (intro floor_mono) simp
  have r1: "0 < real_of_int ?r1" and r2: "0 < real_of_int ?r2" using p1 le by linarith+
  have "a1 = 2103840000 / real_of_int ?r1"
    using getTheoreticalAPR_eq [OF assms(1)] assms(3) by simp
  moreover have "a2 = 2103840000 / real_of_int ?r2"
    using getTheoreticalAPR_eq [of S2] assms by simp
  moreover have "2103840000 / real_of_int ?r2 \<le> 2103840000 / real_of_int ?r1"
    using le r1 by (intro divide_left_mono) (auto intro: mult_pos_pos r2)
  ultimately show ?thesis by simp
qed

lemma constrainedGrowth_bounds:
  assumes "0 \<le> M"
  shows "- M \<le> constrainedGrowth T sc M a" and "constrainedGrowth T sc M a \<le> M"
  using assms by (auto simp: constrainedGrowth_def)

lemma constrainedGrowth_nonneg:
  assumes "0 \<le> dailyGrowthRate T + netFlowBias sc * M * 0.1" and "0 \<le> M" and "0 \<le> a"
  shows "0 \<le> constrainedGrowth T sc M a"
proof -
  have "0 \<le> 1 + (a - 4) * (0.1::real)" using assms(3) by (simp add: field_simps)
  then have "0 \<le> (dailyGrowthRate T + netFlowBias sc * M * 0.1) * (1 + (a - 4) * 0.1)"
    using assms(1) by (intro mult_nonneg_nonneg)
  then show ?thesis using assms(2)
    by (auto simp: constrainedGrowth_def applyAPRFeedback_def Let_def)
qed


lemma total_nonneg:
  assumes "getTheoreticalAPR s = Some c" and "0 \<le> y" and "0 \<le> mevMultiplier sc"
  shows "0 \<le> c + annualizedAPR (forecastExecutionYield y R d v) * mevMultiplier sc"
proof -
  have "0 \<le> c" using assms(1) by (rule getTheoreticalAPR_nonneg)
  moreover have "0 \<le> annualizedAPR (forecastExecutionYield y R d v)"
    using forecastExecutionYield_lower [OF assms(2), of R d v] by simp
  ultimately show ?thesis using assms(3) by simp
qed

section \<open>Runs that stay above one Gwei\<close>

lemma forecastDays_invariant_upto:
  assumes "forecastDays L T sc M R y n d st = Some ps"
    and "I d st"
    and step: "\<And>k s p s'. d \<le> k \<Longrightarrow> k < d + n \<Longrightarrow> I k s
                 \<Longrightarrow> forecastDay L T sc M R y k s = Some (p, s') \<Longrightarrow> I (Suc k) s' \<and> Q k p"
  shows "\<forall>i<n. Q (d + i) (ps ! i)"
  using assms
proof (induction n arbitrary: d st ps)
  case 0
  then show ?case by simp
next
  case (Suc n)
  from Suc.prems(1) obtain p st' qs where
    day: "forecastDay L T sc M R y d st = Some (p, st')" and
    rest: "forecastDays L T sc M R y n (Suc d) st' = Some qs" and
    ps: "ps = p # qs"
    by (auto split: option.splits)
  from Suc.prems(3) [OF _ _ Suc.prems(2) day] have I': "I (Suc d) st'" and Q: "Q d p" by simp_all
  have "\<forall>i<n. Q (Suc d + i) (qs ! i)"
  proof (rule Suc.IH [OF rest I'])
    fix k s p s'
    assume "Suc d \<le> k" "k < Suc d + n" "I k s" "forecastDay L T sc M R y k s = Some (p, s')"
    then show "I (Suc k) s' \<and> Q k p" using Suc.prems(3) [of k s p s'] by simp
  qed
  then have tl: "\<forall>i<n. Q (Suc d + i) (qs ! i)" .
  show ?case
  proof (intro allI impI)
    fix i assume "i < Suc n"
    show "Q (d + i) (ps ! i)"
    proof (cases i)
      case 0
      then show ?thesis using Q ps by simp
    next
      case (Suc j)
      then show ?thesis using tl ps \<open>i < Suc n\<close> by simp
    qed
  qed
qed

lemma forecastDays_defined_upto:
  assumes "I d st"
    and step: "\<And>k s. d \<le> k \<Longrightarrow> k < d + n \<Longrightarrow> I k s
                 \<Longrightarrow> \<exists>p s'. forecastDay L T sc M R y k s = Some (p, s') \<and> I (Suc k) s'"
  shows "\<exists>ps. forecastDays L T sc M R y n d st = Some ps"
  using assms
proof (induction n arbitrary: d st)
  case 0
  then show ?case by simp
next
  case (Suc n)
  from Suc.prems(2) [OF _ _ Suc.prems(1)] obtain p s' where
    day: "forecastDay L T sc M R y d st = Some (p, s')" and I': "I (Suc d) s'" by auto
  have "\<exists>qs. forecastDays L T sc M R y n (Suc d) s' = Some qs"
  proof (rule Suc.IH [OF I'])
    fix k s
    assume "Suc d \<le> k" "k < Suc d + n" "I k s"
    then show "\<exists>p s'. forecastDay L T sc M R y k s = Some (p, s') \<and> I (Suc k) s'"
      using Suc.prems(2) [of k s] by simp
  qed
  then obtain qs where "forecastDays L T sc M R y n (Suc d) s' = Some qs" by blast
  with day show ?case by simp
qed

lemma run_defined:
  assumes M: "0 \<le> M" and st: "1 / 1000000000 + real n * M \<le> currentStake st"
  shows "\<exists>ps. forecastDays L T sc M R y n d st = Some ps"
proof (rule forecastDays_defined_upto
    [where I = "\<lambda>k s. 1 / 1000000000 + (real d + real n - real k) * M \<le> currentStake s"])
  show "1 / 1000000000 + (real d + real n - real d) * M \<le> currentStake st"
    using st by simp
next
  fix k and s :: SimState
  assume k: "d \<le> k" "k < d + n"
    and s: "1 / 1000000000 + (real d + real n - real k) * M \<le> currentStake s"
  have "0 \<le> (real d + real n - real k) * M" using k M by (intro mult_nonneg_nonneg) simp_all
  then have g: "1 / 1000000000 \<le> currentStake s" using s by linarith
  from getTheoreticalAPR_eq [OF g] obtain c where c: "getTheoreticalAPR (currentStake s) = Some c"
    by blast
  from forecastDay_defined [OF c, of L T sc M R y k] obtain s' where
    day: "forecastDay L T sc M R y k s
            = Some (dayPoint L T sc M k c (forecastExecutionYield y R k (currentValidators s))
                      (currentStake s), s')"
    and s': "currentStake s' = ForecastPoint.totalStakedETH
               (dayPoint L T sc M k c (forecastExecutionYield y R k (currentValidators s))
                      (currentStake s))" by blast
  let ?g = "constrainedGrowth T sc M
              (c + annualizedAPR (forecastExecutionYield y R k (currentValidators s))
                   * mevMultiplier sc)"
  have "currentStake s' = max 0 (currentStake s + ?g)" using s' by (simp add: dayPoint_fields)
  moreover have "- M \<le> ?g" using M by (rule constrainedGrowth_bounds)
  moreover have "(real d + real n - real (Suc k)) * M = (real d + real n - real k) * M - M"
    by (simp add: algebra_simps)
  ultimately have "1 / 1000000000 + (real d + real n - real (Suc k)) * M \<le> currentStake s'"
    using s by linarith
  with day show "\<exists>p s'. forecastDay L T sc M R y k s = Some (p, s')
                   \<and> 1 / 1000000000 + (real d + real n - real (Suc k)) * M \<le> currentStake s'"
    by blast
qed

text \<open>A run whose base growth rate is not negative never lets the stake fall.\<close>

lemma growing_run:
  assumes run: "forecastDays L T sc M R y n d st = Some ps"
    and b: "0 \<le> dailyGrowthRate T + netFlowBias sc * M * 0.1"
    and M: "0 \<le> M" and y: "0 \<le> y" and mult: "0 \<le> mevMultiplier sc"
    and st: "S \<le> currentStake st" and S: "0 \<le> S"
  shows "\<forall>i<n. \<exists>c s. ps ! i = dayPoint L T sc M (d + i) c (forecastExecutionYield y R (d + i) 0) s
                 \<and> getTheoreticalAPR s = Some c \<and> S \<le> s
                 \<and> s \<le> ForecastPoint.totalStakedETH (ps ! i)
                 \<and> ForecastPoint.totalStakedETH (ps ! i) \<le> s + M"
proof (rule forecastDays_invariant_upto [OF run, where I = "\<lambda>k s. S \<le> currentStake s"])
  show "S \<le> currentStake st" by (rule st)
next
  fix k p s' and s :: SimState
  assume s: "S \<le> currentStake s" and day: "forecastDay L T sc M R y k s = Some (p, s')"
  from forecastDay_SomeD [OF day] obtain c where
    c: "getTheoreticalAPR (currentStake s) = Some c" and
    p: "p = dayPoint L T sc M k c (forecastExecutionYield y R k (currentValidators s))
              (currentStake s)" and
    s': "currentStake s' = ForecastPoint.totalStakedETH p" by blast
  have v: "forecastExecutionYield y R k (currentValidators s) = forecastExecutionYield y R k 0"
    by (rule forecastExecutionYield_validators)
  let ?g = "constrainedGrowth T sc M
              (c + annualizedAPR (forecastExecutionYield y R k 0) * mevMultiplier sc)"
  have "0 \<le> ?g" using b M total_nonneg [OF c y mult] by (rule constrainedGrowth_nonneg)
  moreover have "?g \<le> M" using M by (rule constrainedGrowth_bounds)
  moreover have "ForecastPoint.totalStakedETH p = max 0 (currentStake s + ?g)"
    using p v by (simp add: dayPoint_fields)
  ultimately have "currentStake s \<le> ForecastPoint.totalStakedETH p"
    and "ForecastPoint.totalStakedETH p \<le> currentStake s + M"
    using s S by simp_all
  with s s' c p v
  show "S \<le> currentStake s' \<and>
        (\<exists>c s. p = dayPoint L T sc M k c (forecastExecutionYield y R k 0) s
               \<and> getTheoreticalAPR s = Some c \<and> S \<le> s
               \<and> s \<le> ForecastPoint.totalStakedETH p
               \<and> ForecastPoint.totalStakedETH p \<le> s + M)"
    by auto
qed


section \<open>The execution sub-shares\<close>

lemma driverAttribution_subshares:
  assumes "totalAPR (driverAttribution c (forecastExecutionYield y R d v) sc) \<noteq> 0"
    and "executionAPR (driverAttribution c (forecastExecutionYield y R d v) sc) \<noteq> 0"
  shows "\<exists>f m. priorityFeesPct (driverAttribution c (forecastExecutionYield y R d v) sc) = Some f
           \<and> mevPct (driverAttribution c (forecastExecutionYield y R d v) sc) = Some m
           \<and> executionPct (driverAttribution c (forecastExecutionYield y R d v) sc)
               = Some ((f + m) * mevMultiplier sc)"
proof -
  define a where "a = annualizedAPR (forecastExecutionYield y R d v)"
  define x where "x = a * mevMultiplier sc"
  define t where "t = c + x"
  have x: "x \<noteq> 0" and t: "t \<noteq> 0"
    using assms by (simp_all add: driverAttribution_fields x_def t_def a_def)
  have f: "priorityFeesPct (driverAttribution c (forecastExecutionYield y R d v) sc)
             = Some (0.4 * a / x * (x / t) * 100)"
    using x t
    by (simp add: driverAttribution_def forecastExecutionYield_components x_def t_def a_def)
  have m: "mevPct (driverAttribution c (forecastExecutionYield y R d v) sc)
             = Some (0.6 * a / x * (x / t) * 100)"
    using x t
    by (simp add: driverAttribution_def forecastExecutionYield_components x_def t_def a_def)
  have e: "executionPct (driverAttribution c (forecastExecutionYield y R d v) sc)
             = Some (x / t * 100)"
    using t by (simp add: driverAttribution_def x_def t_def a_def)
  have "(0.4 * a / x * (x / t) * 100 + 0.6 * a / x * (x / t) * 100) * mevMultiplier sc
          = (a / x * x) * (mevMultiplier sc / t * 100)"
    by (simp add: field_simps)
  also have "\<dots> = a * (mevMultiplier sc / t * 100)" using x by simp
  also have "\<dots> = x / t * 100" by (simp add: x_def)
  finally show ?thesis using f m e by simp
qed

text \<open>
  Claim C1 fails on the code for a scenario whose \<open>mevMultiplier\<close> is not 1. The shares
  \<open>priorityFeesPct\<close> and \<open>mevPct\<close> divide the components of the unscaled execution APR
  by the scaled one, so they add up to \<open>executionPct / mevMultiplier\<close>. For the example
  state, one month and the bullish scenario (\<open>mevMultiplier = 1.3\<close>) the returned point
  has a nonzero total and execution APR, an \<open>executionPct\<close> above 1, and sub-shares whose
  sum times 1.3 is \<open>executionPct\<close>: the sum is short of \<open>executionPct\<close> by 23 percent of it.
\<close>

theorem bullish_subshares_fall_short:
  "\<exists>p f m e. generateForecast rnd now [exampleState] 1 BULLISH_SCENARIO (Some []) = Inr [p]
      \<and> totalAPR (drivers p) \<noteq> 0 \<and> executionAPR (drivers p) \<noteq> 0
      \<and> priorityFeesPct (drivers p) = Some f \<and> mevPct (drivers p) = Some m
      \<and> executionPct (drivers p) = Some e \<and> (f + m) * 1.3 = e \<and> 1 < e"
proof -
  let ?T = "calculateStakingTrend [exampleState]"
  let ?M = "getMaxDailyStakeChange (activeValidators exampleState)"
  let ?st = "\<lparr>currentStake = HistoricalDataPoint.totalStakedETH exampleState,
              currentValidators = activeValidators exampleState,
              currentEntryQueue = entryQueueLength exampleState,
              currentExitQueue = exitQueueLength exampleState\<rparr>"
  have R: "(case feeRegimeBias BULLISH_SCENARIO of
              current \<Rightarrow> (if ([]::ExecutionDataPoint list) = [] then calm
                           else classifyYield
                             (mean (map (\<lambda>d. (priorityFeesETH d + mevRewardsETH d)
                                              / activeValidators exampleState)
                                     (take 7 (sortDescending [])))))
            | forced r \<Rightarrow> r) = elevated"
    by (simp add: BULLISH_SCENARIO_def)
  have y: "(if ([]::ExecutionDataPoint list) = [] then 0.001
            else mean (map (\<lambda>d. (priorityFeesETH d + mevRewardsETH d)
                                  / activeValidators exampleState) (take 7 []))) = (0.001::real)"
    by simp
  have mult: "mevMultiplier BULLISH_SCENARIO = 1.3" by (simp add: BULLISH_SCENARIO_def)
  have Mval: "?M = 115200"
    by (simp add: getMaxDailyStakeChange_def getChurnLimit_def exampleState_def Let_def
        EPOCHS_PER_DAY_eq MIN_PER_EPOCH_CHURN_LIMIT_def CHURN_LIMIT_QUOTIENT_def)
  have M: "0 \<le> ?M" by (simp add: Mval)
  have b: "0 \<le> dailyGrowthRate ?T + netFlowBias BULLISH_SCENARIO * ?M * 0.1"
    using M by (simp add: calculateStakingTrend_def BULLISH_SCENARIO_def)
  have n: "nat \<lfloor>(1::real) * 30\<rfloor> = 30" by simp
  have st: "1 / 1000000000 + real (30::nat) * ?M \<le> currentStake ?st"
    by (simp add: Mval) (simp add: exampleState_def)
  from run_defined [OF M st, of exampleState ?T BULLISH_SCENARIO elevated "0.001" 1]
  obtain ps where run: "forecastDays exampleState ?T BULLISH_SCENARIO ?M elevated 0.001 30 1 ?st
                          = Some ps" by blast
  have ne: "[exampleState] \<noteq> []" by simp
  have L: "exampleState = hd (sort_key (\<lambda>p. - HistoricalDataPoint.timestamp p) [exampleState])"
    by simp
  have v: "activeValidators exampleState \<noteq> 0" by (simp add: exampleState_def)
  have g: "generateForecast rnd now [exampleState] 1 BULLISH_SCENARIO (Some [])
             = Inr (monthlySnapshots ps)"
    unfolding generateForecast_supplied [OF ne L v] R y n by (simp only: run option.case)
  have len: "length ps = 30 * 1" using forecastDays_length [OF run] by simp
  have snap: "monthlySnapshots ps = [ps ! 29]" using monthlySnapshots_nth [OF len] by simp
  have s0: "34500000 \<le> currentStake ?st" by (simp add: exampleState_def)
  have y0: "0 \<le> (0.001::real)" and m0: "0 \<le> mevMultiplier BULLISH_SCENARIO"
    by (simp_all add: mult)
  have s00: "(0::real) \<le> 34500000" by simp
  note all = growing_run [OF run b M y0 m0 s0 s00, rule_format, of 29]
  have "\<exists>c s. ps ! 29 = dayPoint exampleState ?T BULLISH_SCENARIO ?M (1 + 29) c
                           (forecastExecutionYield 0.001 elevated (1 + 29) 0) s
               \<and> getTheoreticalAPR s = Some c \<and> 34500000 \<le> s"
    using all by auto
  then obtain c s where
    p: "ps ! 29 = dayPoint exampleState ?T BULLISH_SCENARIO ?M (1 + 29) c
                    (forecastExecutionYield 0.001 elevated (1 + 29) 0) s"
    and c: "getTheoreticalAPR s = Some c" and s: "34500000 \<le> s" by blast
  have c0: "0 \<le> c" using c by (rule getTheoreticalAPR_nonneg)
  have c1: "c \<le> 2103840000 / 185741756"
    by (rule getTheoreticalAPR_antimono [OF _ s example_consensus c]) simp
  define ef where "ef = forecastExecutionYield 0.001 elevated (1 + 29) 0"
  define a where "a = annualizedAPR ef"
  have a: "17109375 / 100000000 \<le> a"
    unfolding a_def ef_def by (rule forecastExecutionYield_lower) simp
  let ?D = "driverAttribution c ef BULLISH_SCENARIO"
  have d: "drivers (ps ! 29) = ?D" unfolding p ef_def by (rule dayPoint_fields)
  have tot: "totalAPR ?D = c + a * 1.3" and ex: "executionAPR ?D = a * 1.3"
    by (simp_all add: driverAttribution_fields mult a_def)
  have tz: "totalAPR ?D \<noteq> 0" and ez: "executionAPR ?D \<noteq> 0"
    unfolding tot ex using c0 a by simp_all
  from driverAttribution_subshares [OF tz [unfolded ef_def] ez [unfolded ef_def], folded ef_def]
  obtain f m where
    f: "priorityFeesPct ?D = Some f" and m: "mevPct ?D = Some m"
    and e: "executionPct ?D = Some ((f + m) * 1.3)" unfolding mult by blast
  have "executionPct ?D = Some (a * 1.3 / (c + a * 1.3) * 100)"
    using tz [unfolded tot] by (simp add: driverAttribution_def mult a_def)
  with e have ev: "(f + m) * 1.3 = a * 1.3 / (c + a * 1.3) * 100" by simp
  have "c + a * 1.3 < a * 1.3 * 100" using c1 a by simp
  moreover have "0 < c + a * 1.3" using c0 a by simp
  ultimately have "1 < a * 1.3 / (c + a * 1.3) * 100" by (simp add: field_simps)
  then have big: "1 < (f + m) * 1.3" by (simp only: ev)
  have "generateForecast rnd now [exampleState] 1 BULLISH_SCENARIO (Some []) = Inr [ps ! 29]
      \<and> totalAPR (drivers (ps ! 29)) \<noteq> 0 \<and> executionAPR (drivers (ps ! 29)) \<noteq> 0
      \<and> priorityFeesPct (drivers (ps ! 29)) = Some f \<and> mevPct (drivers (ps ! 29)) = Some m
      \<and> executionPct (drivers (ps ! 29)) = Some ((f + m) * 1.3)
      \<and> (f + m) * 1.3 = (f + m) * 1.3 \<and> 1 < (f + m) * 1.3"
    using g tz ez f m e big by (simp only: snap d) simp
  then show ?thesis by blast
qed

section \<open>Runs that hold, rise or fall\<close>







section \<open>Runs from a large stake\<close>


section \<open>A hot day with a growing history\<close>








section \<open>The scenarios after a hot day\<close>












section \<open>The expected regime after a calm start\<close>




section \<open>The execution APR of the three scenarios\<close>









section \<open>The consensus APR of two stakes\<close>






section \<open>Two runs side by side\<close>




section \<open>Execution histories without a hot day\<close>







section \<open>The three scenarios in order\<close>













end
